theory Spec2Isabelle
  imports Main
begin

section \<open>JavaScript strings, arrays and exceptions\<close>

text \<open>
  The generator of \<^verbatim>\<open>GenerateModuleCpp.js\<close> is string assembly with template
  literals. Strings are \<open>string\<close>; the two characters that cannot be written inside
  a HOL string literal get a name each.
\<close>

definition newline :: string where
  "newline = [CHR 0x0A]"

definition dquote :: string where
  "dquote = [CHR 0x22]"

text \<open>
  A template literal prints a non-negative integer (an array index, an array length)
  in decimal.
\<close>

definition digit :: "nat \<Rightarrow> char" where
  "digit d = ''0123456789'' ! d"

fun string_of_nat :: "nat \<Rightarrow> string" where
  "string_of_nat n =
     (if n < 10 then [digit n]
      else string_of_nat (n div 10) @ [digit (n mod 10)])"

declare string_of_nat.simps [simp del]

text \<open>\<^verbatim>\<open>Array.prototype.join\<close> on an array of strings.\<close>

fun join :: "string \<Rightarrow> string list \<Rightarrow> string" where
  "join sep [] = []"
| "join sep [x] = x"
| "join sep (x # y # ys) = x @ sep @ join sep (y # ys)"

text \<open>
  A \<^verbatim>\<open>throw\<close> is the left summand of the result. \<open>Error msg\<close> is the
  \<^verbatim>\<open>new Error(msg)\<close> of \<^verbatim>\<open>serializeArg\<close>; \<open>UnresolvedAlias n\<close> is the fatal error
  of the alias resolver for the alias name \<open>n\<close>.
\<close>

datatype error = Error string | UnresolvedAlias string

text \<open>
  \<^verbatim>\<open>Array.prototype.map\<close> with a callback that may throw: the elements are visited
  from left to right and the first exception leaves the loop.
\<close>

fun mapE :: "('a \<Rightarrow> error + 'b) \<Rightarrow> 'a list \<Rightarrow> error + 'b list" where
  "mapE f [] = Inr []"
| "mapE f (x # xs) =
     (case f x of
        Inl e \<Rightarrow> Inl e
      | Inr y \<Rightarrow> (case mapE f xs of Inl e \<Rightarrow> Inl e | Inr ys \<Rightarrow> Inr (y # ys)))"

section \<open>The schema\<close>

text \<open>
  A type annotation is an object with a \<^verbatim>\<open>type\<close> tag; the reserved and the alias
  annotations also carry a \<^verbatim>\<open>name\<close>. The generator reads no other field of a
  parameter's or a return value's annotation, so the model keeps these two
  (\<open>ta_name\<close> is not read for an annotation that has none).
\<close>

record typeAnnotation =
  ta_type :: string
  ta_name :: string

text \<open>
  \<^verbatim>\<open>Nullable<T> = NullableTypeAnnotation<T> | T\<close>: the wrapper is an object
  \<^verbatim>\<open>{type: 'NullableTypeAnnotation', typeAnnotation: T}\<close>, \<open>NonNullable\<close> is the bare
  \<^verbatim>\<open>T\<close>.
\<close>

datatype 'a nullable = NullableTypeAnnotation 'a | NonNullable 'a

text \<open>\<^verbatim>\<open>NamedShape<T>\<close>: parameters and properties.\<close>

record 'a namedShape =
  name :: string
  typeAnnotation :: 'a

type_synonym param = "typeAnnotation nullable namedShape"

record functionTypeAnnotation =
  params :: "param list"
  returnTypeAnnotation :: typeAnnotation

type_synonym propertyShape = "functionTypeAnnotation nullable namedShape"

record nativeModuleSpec =
  properties :: "propertyShape list"

record nativeModuleSchema =
  aliases :: "string \<rightharpoonup> typeAnnotation"
  spec :: nativeModuleSpec
  moduleNames :: "string list"

text \<open>
  The schema's \<^verbatim>\<open>modules\<close> object, as its entries in the order \<^verbatim>\<open>Object.keys\<close>
  lists them (the keys of an object are distinct).
\<close>

record schemaType =
  modules :: "(string \<times> nativeModuleSchema) list"

section \<open>Helpers imported by the generator\<close>

text \<open>
  Modelled from the spec: \<^verbatim>\<open>unwrapNullable\<close> of \<^verbatim>\<open>parsers/flow/modules/utils\<close> is
  not among the sources. Section 4.2: given a possibly nullable annotation it returns
  the inner annotation and the nullability flag; an annotation without the wrapper is
  returned unchanged with the flag false.
\<close>

fun unwrapNullable :: "'a nullable \<Rightarrow> 'a \<times> bool" where
  "unwrapNullable (NullableTypeAnnotation t) = (t, True)"
| "unwrapNullable (NonNullable t) = (t, False)"

text \<open>
  Modelled from the spec: \<^verbatim>\<open>createAliasResolver\<close> of \<^verbatim>\<open>./Utils\<close> is not among the
  sources. Section 4.1: a lookup from alias name to the annotation the module's alias
  table holds for it, with no transitive chasing; an unknown name is a fatal error.
\<close>

type_synonym aliasResolver = "string \<Rightarrow> error + typeAnnotation"

definition createAliasResolver :: "(string \<rightharpoonup> typeAnnotation) \<Rightarrow> aliasResolver" where
  "createAliasResolver aliasMap aliasName =
     (case aliasMap aliasName of
        None \<Rightarrow> Inl (UnresolvedAlias aliasName)
      | Some alias \<Rightarrow> Inr alias)"

text \<open>
  Modelled from the spec: \<^verbatim>\<open>getModules\<close> of \<^verbatim>\<open>./Utils\<close> is not among the sources.
  Section 3: the schema is a mapping from module identifier to module spec, which the
  driver iterates in a stable order.
\<close>

definition getModules :: "schemaType \<Rightarrow> (string \<times> nativeModuleSchema) list" where
  "getModules schema = modules schema"

section \<open>Templates\<close>

text \<open>
  The identifier of a trampoline. The source spells it out twice, in
  \<^verbatim>\<open>HostFunctionTemplate\<close> (the function's definition) and in \<^verbatim>\<open>ModuleTemplate\<close> (the
  reference in the registration entry):
  \<^verbatim>\<open>__hostFunction_${hasteModuleName}CxxSpecJSI_${methodName}\<close>.
\<close>

definition hostFunctionName :: "string \<Rightarrow> string \<Rightarrow> string" where
  "hostFunctionName hasteModuleName methodName =
     ''__hostFunction_'' @ hasteModuleName @ ''CxxSpecJSI_'' @ methodName"

text \<open>The constant \<^verbatim>\<open>methodCall\<close> of \<^verbatim>\<open>HostFunctionTemplate\<close>.\<close>

definition methodCall :: "string \<Rightarrow> string \<Rightarrow> string list \<Rightarrow> string" where
  "methodCall hasteModuleName methodName args =
     ''static_cast<'' @ hasteModuleName @ ''CxxSpecJSI *>(&turboModule)->'' @ methodName
       @ ''('' @ join '', '' (''rt'' # args) @ '');''"

definition HostFunctionTemplate :: "string \<Rightarrow> string \<Rightarrow> bool \<Rightarrow> string list \<Rightarrow> string" where
  "HostFunctionTemplate hasteModuleName methodName isVoid args =
     ''static jsi::Value '' @ hostFunctionName hasteModuleName methodName
       @ ''(jsi::Runtime &rt, TurboModule &turboModule, const jsi::Value* args, size_t count) {''
       @ (if isVoid then newline @ ''  '' @ methodCall hasteModuleName methodName args else [])
       @ newline @ ''  return ''
       @ (if isVoid then ''jsi::Value::undefined();''
          else methodCall hasteModuleName methodName args)
       @ newline @ ''}''"

record methodEntry =
  methodName :: string
  paramCount :: nat

text \<open>The callback of \<^verbatim>\<open>methods.map\<close> in \<^verbatim>\<open>ModuleTemplate\<close>: one registration entry.\<close>

definition methodMapEntry :: "string \<Rightarrow> methodEntry \<Rightarrow> string" where
  "methodMapEntry hasteModuleName m =
     ''  methodMap_['' @ dquote @ methodName m @ dquote @ ''] = MethodMetadata {''
       @ string_of_nat (paramCount m) @ '', ''
       @ hostFunctionName hasteModuleName (methodName m) @ ''};''"

definition ModuleTemplate :: "string \<Rightarrow> string list \<Rightarrow> string \<Rightarrow> methodEntry list \<Rightarrow> string" where
  "ModuleTemplate hasteModuleName hostFunctions moduleName methods =
     join newline hostFunctions
       @ newline @ newline
       @ hasteModuleName @ ''CxxSpecJSI::'' @ hasteModuleName
       @ ''CxxSpecJSI(std::shared_ptr<CallInvoker> jsInvoker)'' @ newline
       @ ''  : TurboModule('' @ dquote @ moduleName @ dquote @ '', jsInvoker) {'' @ newline
       @ join newline (map (methodMapEntry hasteModuleName) methods)
       @ newline @ ''}''"

definition FileTemplate :: "string \<Rightarrow> string \<Rightarrow> string" where
  "FileTemplate libraryName modulesText =
     ''/**'' @ newline
       @ '' * This code was generated by [react-native-codegen](https://www.npmjs.com/package/react-native-codegen).'' @ newline
       @ '' *'' @ newline
       @ '' * Do not edit this file as changes may cause incorrect behavior and will be lost'' @ newline
       @ '' * once the code is regenerated.'' @ newline
       @ '' *'' @ newline
       @ '' * @generated by codegen project: GenerateModuleH.js'' @ newline
       @ '' */'' @ newline
       @ newline
       @ ''#include '' @ dquote @ libraryName @ ''JSI.h'' @ dquote @ newline
       @ newline
       @ ''namespace facebook {'' @ newline
       @ ''namespace react {'' @ newline
       @ newline
       @ modulesText @ newline
       @ newline
       @ newline
       @ ''} // namespace react'' @ newline
       @ ''} // namespace facebook'' @ newline"

section \<open>The argument serializer\<close>

text \<open>
  The local function \<^verbatim>\<open>wrap\<close> of \<^verbatim>\<open>serializeArg\<close>, with the two variables it closes
  over (\<^verbatim>\<open>index\<close> and \<^verbatim>\<open>nullable\<close>) as parameters.
\<close>

definition wrap :: "nat \<Rightarrow> bool \<Rightarrow> string \<Rightarrow> string" where
  "wrap index nullable suffix =
     (let val = ''args['' @ string_of_nat index @ '']'';
          expression = val @ suffix
      in if nullable
         then val @ ''.isNull() || '' @ val
                @ ''.isUndefined() ? std::nullopt : std::make_optional('' @ expression @ '')''
         else expression)"

text \<open>The message of both \<^verbatim>\<open>throw new Error(...)\<close> of \<^verbatim>\<open>serializeArg\<close>.\<close>

definition unknownPropType :: "string \<Rightarrow> string \<Rightarrow> error" where
  "unknownPropType argName found =
     Error (''Unknown prop type for '' @ dquote @ argName @ '', found: '' @ found @ dquote)"

definition serializeArg :: "param \<Rightarrow> nat \<Rightarrow> aliasResolver \<Rightarrow> error + string" where
  "serializeArg arg index resolveAlias =
     (case unwrapNullable (typeAnnotation arg) of (typeAnnotation', nullable) \<Rightarrow>
        (case (if ta_type typeAnnotation' = ''TypeAliasTypeAnnotation''
               then resolveAlias (ta_name typeAnnotation')
               else Inr typeAnnotation') of
           Inl e \<Rightarrow> Inl e
         | Inr realTypeAnnotation \<Rightarrow>
             if ta_type realTypeAnnotation = ''ReservedTypeAnnotation'' then
               (if ta_name realTypeAnnotation = ''RootTag''
                then Inr (wrap index nullable ''.getNumber()'')
                else Inl (unknownPropType (name arg) (ta_name realTypeAnnotation)))
             else if ta_type realTypeAnnotation = ''StringTypeAnnotation'' then
               Inr (wrap index nullable ''.asString(rt)'')
             else if ta_type realTypeAnnotation = ''BooleanTypeAnnotation'' then
               Inr (wrap index nullable ''.asBool()'')
             else if ta_type realTypeAnnotation = ''NumberTypeAnnotation'' then
               Inr (wrap index nullable ''.asNumber()'')
             else if ta_type realTypeAnnotation = ''FloatTypeAnnotation'' then
               Inr (wrap index nullable ''.asNumber()'')
             else if ta_type realTypeAnnotation = ''DoubleTypeAnnotation'' then
               Inr (wrap index nullable ''.asNumber()'')
             else if ta_type realTypeAnnotation = ''Int32TypeAnnotation'' then
               Inr (wrap index nullable ''.asNumber()'')
             else if ta_type realTypeAnnotation = ''ArrayTypeAnnotation'' then
               Inr (wrap index nullable ''.asObject(rt).asArray(rt)'')
             else if ta_type realTypeAnnotation = ''FunctionTypeAnnotation'' then
               Inr (wrap index nullable ''.asObject(rt).asFunction(rt)'')
             else if ta_type realTypeAnnotation = ''GenericObjectTypeAnnotation'' then
               Inr (wrap index nullable ''.asObject(rt)'')
             else if ta_type realTypeAnnotation = ''ObjectTypeAnnotation'' then
               Inr (wrap index nullable ''.asObject(rt)'')
             else Inl (unknownPropType (name arg) (ta_type realTypeAnnotation))))"

section \<open>Host functions, modules and the driver\<close>

definition serializePropertyIntoHostFunction ::
  "string \<Rightarrow> propertyShape \<Rightarrow> aliasResolver \<Rightarrow> error + string" where
  "serializePropertyIntoHostFunction hasteModuleName property resolveAlias =
     (case unwrapNullable (typeAnnotation property) of (propertyTypeAnnotation, _) \<Rightarrow>
        (let isVoid =
               (ta_type (returnTypeAnnotation propertyTypeAnnotation) = ''VoidTypeAnnotation'')
         in case mapE (\<lambda>(i, p). serializeArg p i resolveAlias)
                   (enumerate 0 (params propertyTypeAnnotation)) of
              Inl e \<Rightarrow> Inl e
            | Inr args \<Rightarrow>
                Inr (HostFunctionTemplate hasteModuleName (name property) isVoid args)))"

text \<open>
  The callback of \<^verbatim>\<open>properties.map\<close> that builds the \<^verbatim>\<open>methods\<close> argument of
  \<^verbatim>\<open>ModuleTemplate\<close> in \<^verbatim>\<open>generate\<close>.
\<close>

definition methodOfProperty :: "propertyShape \<Rightarrow> methodEntry" where
  "methodOfProperty property =
     (case unwrapNullable (typeAnnotation property) of (fta, _) \<Rightarrow>
        \<lparr>methodName = name property, paramCount = length (params fta)\<rparr>)"

text \<open>
  \<^verbatim>\<open>moduleNames[0]\<close> inside a template literal: reading index 0 of an empty array
  gives \<^verbatim>\<open>undefined\<close>, which the template prints as the text \<^verbatim>\<open>undefined\<close>.
\<close>

fun firstModuleName :: "string list \<Rightarrow> string" where
  "firstModuleName [] = ''undefined''"
| "firstModuleName (n # ns) = n"

text \<open>
  The callback of \<^verbatim>\<open>Object.keys(nativeModules).map\<close> in \<^verbatim>\<open>generate\<close>: the text of
  one module.
\<close>

definition serializeModule :: "string \<Rightarrow> nativeModuleSchema \<Rightarrow> error + string" where
  "serializeModule hasteModuleName nativeModule =
     (let resolveAlias = createAliasResolver (aliases nativeModule)
      in case mapE (\<lambda>property.
                  serializePropertyIntoHostFunction hasteModuleName property resolveAlias)
                (properties (spec nativeModule)) of
           Inl e \<Rightarrow> Inl e
         | Inr hostFunctions \<Rightarrow>
             Inr (ModuleTemplate hasteModuleName hostFunctions
                    (firstModuleName (moduleNames nativeModule))
                    (map methodOfProperty (properties (spec nativeModule)))))"

text \<open>
  \<^verbatim>\<open>generate\<close>. The optional \<^verbatim>\<open>packageName\<close> and the defaulted \<^verbatim>\<open>assumeNonnull\<close>
  are \<open>None\<close> when the caller leaves them out. The result is the \<^verbatim>\<open>Map\<close> with its
  one entry.
\<close>

definition generate ::
  "string \<Rightarrow> schemaType \<Rightarrow> string option \<Rightarrow> bool option \<Rightarrow> error + (string \<times> string) list" where
  "generate libraryName schema packageName assumeNonnull =
     (let nativeModules = getModules schema
      in case mapE (\<lambda>(hasteModuleName, nativeModule).
                  serializeModule hasteModuleName nativeModule) nativeModules of
           Inl e \<Rightarrow> Inl e
         | Inr moduleTexts \<Rightarrow>
             (let fileName = libraryName @ ''JSI-generated.cpp'';
                  replacedTemplate = FileTemplate libraryName (join newline moduleTexts)
              in Inr [(fileName, replacedTemplate)]))"

section \<open>The runtime logging API\<close>

text \<open>
  \<^verbatim>\<open>UserFlow.js\<close> calls entry points that the native side may or may not have
  installed on \<^verbatim>\<open>global\<close>. What a native call does is outside the file: it is a
  function on a world \<open>'w\<close> that the model threads through. An entry point that is
  not installed is \<open>None\<close> (the source tests it for truthiness). Marker ids and
  instance keys are JavaScript numbers; the only operation on them is the comparison
  with \<^verbatim>\<open>AUTO_INSTANCE_KEY\<close>, and they are modelled as integers. \<open>'d\<close> is the type
  of \<^verbatim>\<open>PointData\<close>, which the file passes on unread.
\<close>

definition AUTO_INSTANCE_KEY :: int where
  "AUTO_INSTANCE_KEY = - 1"

record flowId =
  markerId :: int
  instanceKey :: int

record startOptions =
  triggerSource :: string
  cancelOnBackground :: bool

record ('w, 'd) global =
  nativeUserFlowNextInstanceKey :: "(int \<Rightarrow> 'w \<Rightarrow> int \<times> 'w) option"
  nativeUserFlowStart :: "(int \<Rightarrow> int \<Rightarrow> string \<Rightarrow> bool \<Rightarrow> 'w \<Rightarrow> 'w) option"
  nativeUserFlowAddAnnotation :: "(int \<Rightarrow> int \<Rightarrow> string \<Rightarrow> string + bool \<Rightarrow> 'w \<Rightarrow> 'w) option"
  nativeUserFlowAddPoint :: "(int \<Rightarrow> int \<Rightarrow> string \<Rightarrow> 'd option \<Rightarrow> 'w \<Rightarrow> 'w) option"
  nativeUserFlowEndSuccess :: "(int \<Rightarrow> int \<Rightarrow> 'w \<Rightarrow> 'w) option"
  nativeUserFlowEndFail :: "(int \<Rightarrow> int \<Rightarrow> string \<Rightarrow> string option \<Rightarrow> 'w \<Rightarrow> 'w) option"
  nativeUserFlowEndCancel :: "(int \<Rightarrow> int \<Rightarrow> string \<Rightarrow> 'w \<Rightarrow> 'w) option"

text \<open>
  \<^verbatim>\<open>newFlowId(markerId, instanceKey = AUTO_INSTANCE_KEY)\<close>: the second argument is
  \<open>None\<close> when the caller leaves it out. The result is the flow id and the world
  after the call.
\<close>

definition newFlowId ::
  "('w, 'd) global \<Rightarrow> int \<Rightarrow> int option \<Rightarrow> 'w \<Rightarrow> flowId \<times> 'w" where
  "newFlowId g mId iKey w =
     (let instanceKey' = (case iKey of None \<Rightarrow> AUTO_INSTANCE_KEY | Some k \<Rightarrow> k)
      in if instanceKey' = AUTO_INSTANCE_KEY then
           (case nativeUserFlowNextInstanceKey g of
              Some nextInstanceKey \<Rightarrow>
                (case nextInstanceKey mId w of
                   (resolvedInstanceKey, w') \<Rightarrow>
                     (\<lparr>markerId = mId, instanceKey = resolvedInstanceKey\<rparr>, w'))
            | None \<Rightarrow> (\<lparr>markerId = mId, instanceKey = 0\<rparr>, w))
         else (\<lparr>markerId = mId, instanceKey = instanceKey'\<rparr>, w))"

definition start :: "('w, 'd) global \<Rightarrow> flowId \<Rightarrow> startOptions \<Rightarrow> 'w \<Rightarrow> 'w" where
  "start g fid options w =
     (case nativeUserFlowStart g of
        Some native \<Rightarrow>
          native (markerId fid) (instanceKey fid) (triggerSource options)
            (cancelOnBackground options) w
      | None \<Rightarrow> w)"

definition addAnnotation ::
  "('w, 'd) global \<Rightarrow> flowId \<Rightarrow> string \<Rightarrow> string + bool \<Rightarrow> 'w \<Rightarrow> 'w" where
  "addAnnotation g fid annotationName annotationValue w =
     (case nativeUserFlowAddAnnotation g of
        Some native \<Rightarrow>
          native (markerId fid) (instanceKey fid) annotationName annotationValue w
      | None \<Rightarrow> w)"

text \<open>
  \<^verbatim>\<open>data: ?PointData = null\<close> and \<^verbatim>\<open>debugInfo: ?string = null\<close>: \<open>None\<close> is
  \<^verbatim>\<open>null\<close>, which is also what a left-out argument becomes.
\<close>

definition addPoint ::
  "('w, 'd) global \<Rightarrow> flowId \<Rightarrow> string \<Rightarrow> 'd option \<Rightarrow> 'w \<Rightarrow> 'w" where
  "addPoint g fid pointName data w =
     (case nativeUserFlowAddPoint g of
        Some native \<Rightarrow> native (markerId fid) (instanceKey fid) pointName data w
      | None \<Rightarrow> w)"

definition endSuccess :: "('w, 'd) global \<Rightarrow> flowId \<Rightarrow> 'w \<Rightarrow> 'w" where
  "endSuccess g fid w =
     (case nativeUserFlowEndSuccess g of
        Some native \<Rightarrow> native (markerId fid) (instanceKey fid) w
      | None \<Rightarrow> w)"

definition endFailure ::
  "('w, 'd) global \<Rightarrow> flowId \<Rightarrow> string \<Rightarrow> string option \<Rightarrow> 'w \<Rightarrow> 'w" where
  "endFailure g fid errorName debugInfo w =
     (case nativeUserFlowEndFail g of
        Some native \<Rightarrow> native (markerId fid) (instanceKey fid) errorName debugInfo w
      | None \<Rightarrow> w)"

definition endCancel :: "('w, 'd) global \<Rightarrow> flowId \<Rightarrow> string \<Rightarrow> 'w \<Rightarrow> 'w" where
  "endCancel g fid cancelReason w =
     (case nativeUserFlowEndCancel g of
        Some native \<Rightarrow> native (markerId fid) (instanceKey fid) cancelReason w
      | None \<Rightarrow> w)"

section \<open>Example inputs\<close>

text \<open>
  The schema of the end-to-end example: one module \<^verbatim>\<open>M\<close> with the method
  \<^verbatim>\<open>add(a: number, b: ?number): number\<close>, and a few variations of it.
\<close>

definition plainType :: "string \<Rightarrow> typeAnnotation" where
  "plainType tag = \<lparr>ta_type = tag, ta_name = []\<rparr>"

definition exampleParamA :: param where
  "exampleParamA = \<lparr>name = ''a'', typeAnnotation = NonNullable (plainType ''NumberTypeAnnotation'')\<rparr>"

definition exampleParamB :: param where
  "exampleParamB =
     \<lparr>name = ''b'', typeAnnotation = NullableTypeAnnotation (plainType ''NumberTypeAnnotation'')\<rparr>"

definition exampleAdd :: propertyShape where
  "exampleAdd =
     \<lparr>name = ''add'',
      typeAnnotation = NonNullable
        \<lparr>params = [exampleParamA, exampleParamB],
         returnTypeAnnotation = plainType ''NumberTypeAnnotation''\<rparr>\<rparr>"

definition exampleLog :: propertyShape where
  "exampleLog =
     \<lparr>name = ''log'',
      typeAnnotation = NonNullable
        \<lparr>params = [\<lparr>name = ''msg'',
                    typeAnnotation = NonNullable (plainType ''StringTypeAnnotation'')\<rparr>],
         returnTypeAnnotation = plainType ''VoidTypeAnnotation''\<rparr>\<rparr>"

definition exampleModule :: nativeModuleSchema where
  "exampleModule =
     \<lparr>aliases = Map.empty, spec = \<lparr>properties = [exampleAdd]\<rparr>, moduleNames = [''M'']\<rparr>"

definition exampleSchema :: schemaType where
  "exampleSchema = \<lparr>modules = [(''M'', exampleModule)]\<rparr>"


definition exampleTwoModules :: schemaType where
  "exampleTwoModules =
     \<lparr>modules =
        [(''M'', \<lparr>aliases = Map.empty, spec = \<lparr>properties = [exampleLog, exampleAdd]\<rparr>,
                 moduleNames = [''M'']\<rparr>),
         (''N'', \<lparr>aliases = Map.empty, spec = \<lparr>properties = [exampleLog]\<rparr>,
                 moduleNames = [''N'']\<rparr>)]\<rparr>"

text \<open>A parameter of a variant outside the rule set, and one of an unknown reserved name.\<close>

definition exampleUnknownParam :: param where
  "exampleUnknownParam =
     \<lparr>name = ''x'', typeAnnotation = NullableTypeAnnotation (plainType ''MixedTypeAnnotation'')\<rparr>"

definition exampleReservedParam :: param where
  "exampleReservedParam =
     \<lparr>name = ''tag'',
      typeAnnotation =
        NonNullable \<lparr>ta_type = ''ReservedTypeAnnotation'', ta_name = ''SurfaceId''\<rparr>\<rparr>"

text \<open>
  A native side that counts the calls it receives: the world is the counter. Its
  next-instance-key entry point answers the marker id plus 100.
\<close>

definition countingNextInstanceKey :: "int \<Rightarrow> nat \<Rightarrow> int \<times> nat" where
  "countingNextInstanceKey m w = (m + 100, Suc w)"

definition countingGlobal :: "(nat, unit) global" where
  "countingGlobal =
     \<lparr>nativeUserFlowNextInstanceKey = Some countingNextInstanceKey,
      nativeUserFlowStart = Some (\<lambda>m k t c w. Suc w),
      nativeUserFlowAddAnnotation = Some (\<lambda>m k n v w. Suc w),
      nativeUserFlowAddPoint = Some (\<lambda>m k n d w. Suc w),
      nativeUserFlowEndSuccess = Some (\<lambda>m k w. Suc w),
      nativeUserFlowEndFail = Some (\<lambda>m k e d w. Suc w),
      nativeUserFlowEndCancel = Some (\<lambda>m k r w. Suc w)\<rparr>"

text \<open>No entry point installed.\<close>

definition bareGlobal :: "(nat, unit) global" where
  "bareGlobal =
     \<lparr>nativeUserFlowNextInstanceKey = None,
      nativeUserFlowStart = None,
      nativeUserFlowAddAnnotation = None,
      nativeUserFlowAddPoint = None,
      nativeUserFlowEndSuccess = None,
      nativeUserFlowEndFail = None,
      nativeUserFlowEndCancel = None\<rparr>"

section \<open>The dispatch of the serializer, factored\<close>

text \<open>
  The \<^verbatim>\<open>switch\<close> of \<^verbatim>\<open>serializeArg\<close> alone, with the call of \<^verbatim>\<open>wrap\<close> abstracted to
  \<open>k\<close>. It is not a function of the source: \<open>serializeArg_switch\<close> below shows that
  \<^verbatim>\<open>serializeArg\<close> is this dispatch applied to \<open>wrap index nullable\<close>, and the proofs
  about the serializer go through it.
\<close>

definition switchOnType :: "string \<Rightarrow> typeAnnotation \<Rightarrow> (string \<Rightarrow> 'a) \<Rightarrow> error + 'a" where
  "switchOnType argName realTypeAnnotation k =
     (if ta_type realTypeAnnotation = ''ReservedTypeAnnotation'' then
        (if ta_name realTypeAnnotation = ''RootTag''
         then Inr (k ''.getNumber()'')
         else Inl (unknownPropType argName (ta_name realTypeAnnotation)))
      else if ta_type realTypeAnnotation = ''StringTypeAnnotation'' then
        Inr (k ''.asString(rt)'')
      else if ta_type realTypeAnnotation = ''BooleanTypeAnnotation'' then
        Inr (k ''.asBool()'')
      else if ta_type realTypeAnnotation = ''NumberTypeAnnotation'' then
        Inr (k ''.asNumber()'')
      else if ta_type realTypeAnnotation = ''FloatTypeAnnotation'' then
        Inr (k ''.asNumber()'')
      else if ta_type realTypeAnnotation = ''DoubleTypeAnnotation'' then
        Inr (k ''.asNumber()'')
      else if ta_type realTypeAnnotation = ''Int32TypeAnnotation'' then
        Inr (k ''.asNumber()'')
      else if ta_type realTypeAnnotation = ''ArrayTypeAnnotation'' then
        Inr (k ''.asObject(rt).asArray(rt)'')
      else if ta_type realTypeAnnotation = ''FunctionTypeAnnotation'' then
        Inr (k ''.asObject(rt).asFunction(rt)'')
      else if ta_type realTypeAnnotation = ''GenericObjectTypeAnnotation'' then
        Inr (k ''.asObject(rt)'')
      else if ta_type realTypeAnnotation = ''ObjectTypeAnnotation'' then
        Inr (k ''.asObject(rt)'')
      else Inl (unknownPropType argName (ta_type realTypeAnnotation)))"

lemma serializeArg_switch:
  "serializeArg arg index resolveAlias =
     (case unwrapNullable (typeAnnotation arg) of (ta, nullable) \<Rightarrow>
        (case (if ta_type ta = ''TypeAliasTypeAnnotation''
               then resolveAlias (ta_name ta) else Inr ta) of
           Inl e \<Rightarrow> Inl e
         | Inr real \<Rightarrow> switchOnType (name arg) real (wrap index nullable)))"
  unfolding serializeArg_def switchOnType_def ..

section \<open>Arrays and decimal numerals\<close>

lemma mapE_Inr_nth:
  "mapE f xs = Inr ys \<Longrightarrow> length ys = length xs \<and> (\<forall>j<length xs. f (xs ! j) = Inr (ys ! j))"
proof (induction xs arbitrary: ys)
  case Nil
  then show ?case by simp
next
  case (Cons x xs)
  from Cons.prems obtain y ys' where fx: "f x = Inr y" and rest: "mapE f xs = Inr ys'"
    and ys: "ys = y # ys'"
    by (auto split: sum.splits)
  from Cons.IH [OF rest] have len: "length ys' = length xs"
    and nth: "\<forall>j<length xs. f (xs ! j) = Inr (ys' ! j)" by simp_all
  show ?case
  proof (intro conjI allI impI)
    show "length ys = length (x # xs)" using len ys by simp
  next
    fix j assume "j < length (x # xs)"
    then show "f ((x # xs) ! j) = Inr (ys ! j)"
      using fx nth ys by (cases j) simp_all
  qed
qed

lemma mapE_append:
  "mapE f (xs @ ys) =
     (case mapE f xs of Inl e \<Rightarrow> Inl e
      | Inr us \<Rightarrow> (case mapE f ys of Inl e \<Rightarrow> Inl e | Inr vs \<Rightarrow> Inr (us @ vs)))"
  by (induction xs) (simp_all split: sum.splits)

section \<open>The argument serializer\<close>

lemma wrap_nullable:
  "wrap i True suffix =
     ''args['' @ string_of_nat i @ '']'' @ ''.isNull() || ''
       @ ''args['' @ string_of_nat i @ '']''
       @ ''.isUndefined() ? std::nullopt : std::make_optional('' @ wrap i False suffix @ '')''"
  by (simp add: wrap_def)

lemma wrap_bare: "wrap i False suffix = ''args['' @ string_of_nat i @ '']'' @ suffix"
  by (simp add: wrap_def)

lemma switchOnType_comp:
  "switchOnType n real (\<lambda>s. f (k s)) =
     (case switchOnType n real k of Inl e \<Rightarrow> Inl e | Inr x \<Rightarrow> Inr (f x))"
  unfolding switchOnType_def by simp

lemma switchOnType_Inr:
  "switchOnType n real k = Inr e \<Longrightarrow>
     \<exists>suffix \<in> {''.getNumber()'', ''.asString(rt)'', ''.asBool()'', ''.asNumber()'',
                 ''.asObject(rt).asArray(rt)'', ''.asObject(rt).asFunction(rt)'',
                 ''.asObject(rt)''}. e = k suffix"
  unfolding switchOnType_def by (auto split: if_splits)

lemma switchOnType_matched:
  assumes "ta_type real \<in> {''StringTypeAnnotation'', ''BooleanTypeAnnotation'',
              ''NumberTypeAnnotation'', ''FloatTypeAnnotation'', ''DoubleTypeAnnotation'',
              ''Int32TypeAnnotation'', ''ArrayTypeAnnotation'', ''FunctionTypeAnnotation'',
              ''GenericObjectTypeAnnotation'', ''ObjectTypeAnnotation''}
           \<or> (ta_type real = ''ReservedTypeAnnotation'' \<and> ta_name real = ''RootTag'')"
  shows "\<exists>suffix. switchOnType n real k = Inr (k suffix)"
  using assms unfolding switchOnType_def by auto

text \<open>
  C1. When the annotation of a parameter, after the nullable wrapper is taken off and
  an alias is resolved, has a tag that no case of the switch matches, or is a reserved
  annotation whose name is not \<^verbatim>\<open>RootTag\<close>, \<open>serializeArg\<close> throws an error whose
  message holds the parameter's name and the tag (the reserved name in the second
  case); it returns no expression.
\<close>

theorem serializeArg_unmatched_throws:
  assumes unwrap: "unwrapNullable (typeAnnotation arg) = (ta, nullable)"
    and resolved: "(if ta_type ta = ''TypeAliasTypeAnnotation''
                    then resolveAlias (ta_name ta) else Inr ta) = Inr real"
    and unmatched:
      "(ta_type real = ''ReservedTypeAnnotation'' \<and> ta_name real \<noteq> ''RootTag''
          \<and> found = ta_name real)
       \<or> (ta_type real \<notin> {''ReservedTypeAnnotation'', ''StringTypeAnnotation'',
              ''BooleanTypeAnnotation'', ''NumberTypeAnnotation'', ''FloatTypeAnnotation'',
              ''DoubleTypeAnnotation'', ''Int32TypeAnnotation'', ''ArrayTypeAnnotation'',
              ''FunctionTypeAnnotation'', ''GenericObjectTypeAnnotation'',
              ''ObjectTypeAnnotation''}
          \<and> found = ta_type real)"
  shows "serializeArg arg index resolveAlias =
           Inl (Error (''Unknown prop type for '' @ dquote @ name arg @ '', found: ''
                         @ found @ dquote))"
proof -
  have "switchOnType (name arg) real (wrap index nullable) =
          Inl (unknownPropType (name arg) found)"
    using unmatched unfolding switchOnType_def by auto
  then show ?thesis
    using unwrap resolved by (simp add: serializeArg_switch unknownPropType_def)
qed

theorem serializeArg_unmatched_throws_witness:
  "serializeArg exampleUnknownParam 3 (createAliasResolver Map.empty) =
     Inl (Error (''Unknown prop type for '' @ dquote @ ''x, found: MixedTypeAnnotation''
                   @ dquote))
   \<and> serializeArg exampleReservedParam 0 (createAliasResolver Map.empty) =
     Inl (Error (''Unknown prop type for '' @ dquote @ ''tag, found: SurfaceId'' @ dquote))"
proof
  show "serializeArg exampleUnknownParam 3 (createAliasResolver Map.empty) =
     Inl (Error (''Unknown prop type for '' @ dquote @ ''x, found: MixedTypeAnnotation''
                   @ dquote))"
    using serializeArg_unmatched_throws
      [of exampleUnknownParam "plainType ''MixedTypeAnnotation''" True
          "createAliasResolver Map.empty" "plainType ''MixedTypeAnnotation''"
          "''MixedTypeAnnotation''" 3]
    by (simp add: exampleUnknownParam_def plainType_def)
next
  show "serializeArg exampleReservedParam 0 (createAliasResolver Map.empty) =
     Inl (Error (''Unknown prop type for '' @ dquote @ ''tag, found: SurfaceId'' @ dquote))"
    using serializeArg_unmatched_throws
      [of exampleReservedParam
          "\<lparr>ta_type = ''ReservedTypeAnnotation'', ta_name = ''SurfaceId''\<rparr>" False
          "createAliasResolver Map.empty"
          "\<lparr>ta_type = ''ReservedTypeAnnotation'', ta_name = ''SurfaceId''\<rparr>"
          "''SurfaceId''" 0]
    by (simp add: exampleReservedParam_def)
qed

text \<open>
  C2. A parameter with the nullable wrapper serializes to one conditional expression
  that tests \<^verbatim>\<open>args[i]\<close> for null and undefined, with \<^verbatim>\<open>std::nullopt\<close> in one branch
  and, inside \<^verbatim>\<open>std::make_optional\<close>, the expression of the same parameter without
  the wrapper in the other; without the wrapper the expression is \<^verbatim>\<open>args[i]\<close> followed
  by the conversion alone. An error of the one is the same error of the other, and
  there is none when the annotation, with an alias resolved, is one the switch has a
  case for.
\<close>

theorem serializeArg_nullable_conditional:
  "serializeArg (arg\<lparr>typeAnnotation := NullableTypeAnnotation t\<rparr>) i r =
     (case serializeArg (arg\<lparr>typeAnnotation := NonNullable t\<rparr>) i r of
        Inl e \<Rightarrow> Inl e
      | Inr e \<Rightarrow>
          Inr (''args['' @ string_of_nat i @ '']'' @ ''.isNull() || ''
                 @ ''args['' @ string_of_nat i @ '']''
                 @ ''.isUndefined() ? std::nullopt : std::make_optional('' @ e @ '')''))
   \<and> (\<forall>e. serializeArg (arg\<lparr>typeAnnotation := NonNullable t\<rparr>) i r = Inr e \<longrightarrow>
          (\<exists>suffix \<in> {''.getNumber()'', ''.asString(rt)'', ''.asBool()'', ''.asNumber()'',
                       ''.asObject(rt).asArray(rt)'', ''.asObject(rt).asFunction(rt)'',
                       ''.asObject(rt)''}.
             e = ''args['' @ string_of_nat i @ '']'' @ suffix))
   \<and> (\<forall>real.
          (if ta_type t = ''TypeAliasTypeAnnotation'' then r (ta_name t) else Inr t) = Inr real \<longrightarrow>
          (ta_type real \<in> {''StringTypeAnnotation'', ''BooleanTypeAnnotation'',
              ''NumberTypeAnnotation'', ''FloatTypeAnnotation'', ''DoubleTypeAnnotation'',
              ''Int32TypeAnnotation'', ''ArrayTypeAnnotation'', ''FunctionTypeAnnotation'',
              ''GenericObjectTypeAnnotation'', ''ObjectTypeAnnotation''}
           \<or> (ta_type real = ''ReservedTypeAnnotation'' \<and> ta_name real = ''RootTag'')) \<longrightarrow>
          (\<exists>e. serializeArg (arg\<lparr>typeAnnotation := NonNullable t\<rparr>) i r = Inr e))"
proof (intro conjI allI impI)
  let ?cond = "\<lambda>e. ''args['' @ string_of_nat i @ '']'' @ ''.isNull() || ''
                 @ ''args['' @ string_of_nat i @ '']''
                 @ ''.isUndefined() ? std::nullopt : std::make_optional('' @ e @ '')''"
  have w: "wrap i True = (\<lambda>s. ?cond (wrap i False s))"
    by (rule ext) (rule wrap_nullable)
  have sw: "switchOnType n real (wrap i True) =
              (case switchOnType n real (wrap i False) of
                 Inl e \<Rightarrow> Inl e | Inr x \<Rightarrow> Inr (?cond x))" for n real
    unfolding w by (rule switchOnType_comp)
  show "serializeArg (arg\<lparr>typeAnnotation := NullableTypeAnnotation t\<rparr>) i r =
     (case serializeArg (arg\<lparr>typeAnnotation := NonNullable t\<rparr>) i r of
        Inl e \<Rightarrow> Inl e | Inr e \<Rightarrow> Inr (?cond e))"
    by (simp add: serializeArg_switch sw split: sum.splits)
next
  fix e
  assume "serializeArg (arg\<lparr>typeAnnotation := NonNullable t\<rparr>) i r = Inr e"
  then obtain real where "switchOnType (name arg) real (wrap i False) = Inr e"
    by (auto simp add: serializeArg_switch split: sum.splits)
  from switchOnType_Inr [OF this]
  show "\<exists>suffix \<in> {''.getNumber()'', ''.asString(rt)'', ''.asBool()'', ''.asNumber()'',
                       ''.asObject(rt).asArray(rt)'', ''.asObject(rt).asFunction(rt)'',
                       ''.asObject(rt)''}.
             e = ''args['' @ string_of_nat i @ '']'' @ suffix"
    unfolding wrap_bare .
next
  fix real
  assume res: "(if ta_type t = ''TypeAliasTypeAnnotation'' then r (ta_name t) else Inr t)
                 = Inr real"
    and "ta_type real \<in> {''StringTypeAnnotation'', ''BooleanTypeAnnotation'',
              ''NumberTypeAnnotation'', ''FloatTypeAnnotation'', ''DoubleTypeAnnotation'',
              ''Int32TypeAnnotation'', ''ArrayTypeAnnotation'', ''FunctionTypeAnnotation'',
              ''GenericObjectTypeAnnotation'', ''ObjectTypeAnnotation''}
           \<or> (ta_type real = ''ReservedTypeAnnotation'' \<and> ta_name real = ''RootTag'')"
  from switchOnType_matched [OF this(2)]
  obtain suffix where "switchOnType (name arg) real (wrap i False) = Inr (wrap i False suffix)"
    by blast
  with res show "\<exists>e. serializeArg (arg\<lparr>typeAnnotation := NonNullable t\<rparr>) i r = Inr e"
    by (simp add: serializeArg_switch)
qed

theorem serializeArg_nullable_conditional_witness:
  "serializeArg exampleParamB 1 (createAliasResolver Map.empty) =
     Inr ''args[1].isNull() || args[1].isUndefined() ? std::nullopt : std::make_optional(args[1].asNumber())''
   \<and> serializeArg (exampleParamB\<lparr>typeAnnotation := NonNullable (plainType ''NumberTypeAnnotation'')\<rparr>)
         1 (createAliasResolver Map.empty) = Inr ''args[1].asNumber()''"
proof -
  let ?r = "createAliasResolver Map.empty"
  let ?t = "plainType ''NumberTypeAnnotation''"
  note facts =
    serializeArg_nullable_conditional [where arg = exampleParamB and t = ?t and i = 1 and r = ?r]
  have "(if ta_type ?t = ''TypeAliasTypeAnnotation'' then ?r (ta_name ?t) else Inr ?t) = Inr ?t"
    by (simp add: plainType_def)
  moreover have "ta_type ?t \<in> {''StringTypeAnnotation'', ''BooleanTypeAnnotation'',
              ''NumberTypeAnnotation'', ''FloatTypeAnnotation'', ''DoubleTypeAnnotation'',
              ''Int32TypeAnnotation'', ''ArrayTypeAnnotation'', ''FunctionTypeAnnotation'',
              ''GenericObjectTypeAnnotation'', ''ObjectTypeAnnotation''}
           \<or> (ta_type ?t = ''ReservedTypeAnnotation'' \<and> ta_name ?t = ''RootTag'')"
    by (simp add: plainType_def)
  ultimately
  have "\<exists>e. serializeArg (exampleParamB\<lparr>typeAnnotation := NonNullable ?t\<rparr>) 1 ?r = Inr e"
    by (rule facts [THEN conjunct2, THEN conjunct2, rule_format])
  have bare: "serializeArg (exampleParamB\<lparr>typeAnnotation := NonNullable ?t\<rparr>) 1 ?r
                = Inr ''args[1].asNumber()''"
    by (simp add: serializeArg_def exampleParamB_def plainType_def wrap_def string_of_nat.simps
          digit_def)
  have same: "exampleParamB\<lparr>typeAnnotation := NullableTypeAnnotation ?t\<rparr> = exampleParamB"
    by (simp add: exampleParamB_def)
  from facts [THEN conjunct1] bare same show ?thesis
    by (simp add: string_of_nat.simps digit_def)
qed

text \<open>
  C8. The four numeric annotations serialize alike: whichever of the number, float,
  double and 32-bit integer tags the annotation has once the wrapper is taken off and
  an alias is resolved, the expression is \<^verbatim>\<open>wrap('.asNumber()')\<close> at the parameter's
  index and nullability, so two parameters that differ in the numeric tag only get the
  same expression.
\<close>

theorem serializeArg_numeric_equivalent:
  assumes unwrap: "unwrapNullable (typeAnnotation arg) = (ta, nullable)"
    and resolved: "(if ta_type ta = ''TypeAliasTypeAnnotation''
                    then resolveAlias (ta_name ta) else Inr ta) = Inr real"
    and numeric: "ta_type real \<in> {''NumberTypeAnnotation'', ''FloatTypeAnnotation'',
                     ''DoubleTypeAnnotation'', ''Int32TypeAnnotation''}"
  shows "serializeArg arg index resolveAlias = Inr (wrap index nullable ''.asNumber()'')"
proof -
  have "switchOnType (name arg) real (wrap index nullable) =
          Inr (wrap index nullable ''.asNumber()'')"
    using numeric unfolding switchOnType_def by auto
  then show ?thesis
    using unwrap resolved by (simp add: serializeArg_switch)
qed

theorem serializeArg_numeric_equivalent_witness:
  "serializeArg \<lparr>name = ''n'', typeAnnotation = NullableTypeAnnotation (plainType ''Int32TypeAnnotation'')\<rparr>
      2 (createAliasResolver Map.empty)
   = serializeArg \<lparr>name = ''n'', typeAnnotation = NullableTypeAnnotation (plainType ''DoubleTypeAnnotation'')\<rparr>
      2 (createAliasResolver Map.empty)"
  using serializeArg_numeric_equivalent
      [where arg = "\<lparr>name = ''n'', typeAnnotation = NullableTypeAnnotation (plainType ''Int32TypeAnnotation'')\<rparr>"
         and ta = "plainType ''Int32TypeAnnotation''" and nullable = True
         and resolveAlias = "createAliasResolver Map.empty"
         and real = "plainType ''Int32TypeAnnotation''" and index = 2]
    serializeArg_numeric_equivalent
      [where arg = "\<lparr>name = ''n'', typeAnnotation = NullableTypeAnnotation (plainType ''DoubleTypeAnnotation'')\<rparr>"
         and ta = "plainType ''DoubleTypeAnnotation''" and nullable = True
         and resolveAlias = "createAliasResolver Map.empty"
         and real = "plainType ''DoubleTypeAnnotation''" and index = 2]
  by (simp add: plainType_def)

section \<open>Trampolines and registration\<close>

text \<open>
  C6. The identifier of a trampoline is a function of the module identifier and the
  method name: it is what \<open>HostFunctionTemplate\<close> defines and what the registration
  entry refers to. For one method name, two different module identifiers give two
  different identifiers.
\<close>

theorem hostFunctionName_distinct_modules:
  "(h1 \<noteq> h2 \<longrightarrow> hostFunctionName h1 m \<noteq> hostFunctionName h2 m)
   \<and> hostFunctionName h1 m = ''__hostFunction_'' @ h1 @ ''CxxSpecJSI_'' @ m
   \<and> (\<exists>rest. HostFunctionTemplate h1 m isVoid args =
                ''static jsi::Value '' @ hostFunctionName h1 m @ ''('' @ rest)
   \<and> (\<exists>front. methodMapEntry h1 \<lparr>methodName = m, paramCount = k\<rparr> =
                front @ hostFunctionName h1 m @ ''};'')"
proof (intro conjI impI)
  assume "h1 \<noteq> h2"
  then show "hostFunctionName h1 m \<noteq> hostFunctionName h2 m"
    by (simp add: hostFunctionName_def)
next
  show "hostFunctionName h1 m = ''__hostFunction_'' @ h1 @ ''CxxSpecJSI_'' @ m"
    by (simp add: hostFunctionName_def)
next
  show "\<exists>rest. HostFunctionTemplate h1 m isVoid args =
                ''static jsi::Value '' @ hostFunctionName h1 m @ ''('' @ rest"
    unfolding HostFunctionTemplate_def by simp
next
  show "\<exists>front. methodMapEntry h1 \<lparr>methodName = m, paramCount = k\<rparr> =
                front @ hostFunctionName h1 m @ ''};''"
    unfolding methodMapEntry_def
    by (metis append.assoc methodEntry.select_convs(1))
qed

theorem hostFunctionName_distinct_modules_witness:
  "hostFunctionName ''A'' ''foo'' = ''__hostFunction_ACxxSpecJSI_foo''
   \<and> hostFunctionName ''B'' ''foo'' = ''__hostFunction_BCxxSpecJSI_foo''
   \<and> hostFunctionName ''A'' ''foo'' \<noteq> hostFunctionName ''B'' ''foo''"
proof -
  have "''A'' \<noteq> ''B''" by simp
  with hostFunctionName_distinct_modules
         [where ?h1.0 = "''A''" and ?h2.0 = "''B''" and m = "''foo''" and isVoid = False
            and args = "[]" and k = 0]
  have "hostFunctionName ''A'' ''foo'' \<noteq> hostFunctionName ''B'' ''foo''" by blast
  then show ?thesis by (simp add: hostFunctionName_def)
qed

section \<open>The driver\<close>

text \<open>
  C10. \<open>generate\<close> reads neither \<^verbatim>\<open>packageName\<close> nor \<^verbatim>\<open>assumeNonnull\<close>: two runs
  on one library name and one schema return the same files, or throw the same error,
  whatever these two arguments are.
\<close>

theorem generate_ignores_packageName_assumeNonnull:
  "generate libraryName schema packageName assumeNonnull =
     generate libraryName schema packageName' assumeNonnull'"
  by (simp add: generate_def)

section \<open>Decimal numerals are read back uniquely\<close>




section \<open>The shape of a successful run\<close>

lemma serializeProperty_Inr:
  assumes unwrap: "unwrapNullable (typeAnnotation property) = (fta, nl)"
    and ok: "serializePropertyIntoHostFunction h property r = Inr cpp"
  shows "\<exists>args. cpp = HostFunctionTemplate h (name property)
                          (ta_type (returnTypeAnnotation fta) = ''VoidTypeAnnotation'') args
           \<and> length args = length (params fta)
           \<and> (\<forall>i<length (params fta). serializeArg (params fta ! i) i r = Inr (args ! i))"
proof -
  from ok unwrap obtain args
    where m: "mapE (\<lambda>(i, p). serializeArg p i r) (enumerate 0 (params fta)) = Inr args"
      and t: "cpp = HostFunctionTemplate h (name property)
                       (ta_type (returnTypeAnnotation fta) = ''VoidTypeAnnotation'') args"
    by (auto simp add: serializePropertyIntoHostFunction_def split: sum.splits)
  from mapE_Inr_nth [OF m]
  have len: "length args = length (params fta)"
    and nth: "\<forall>j<length (params fta).
                (\<lambda>(i, p). serializeArg p i r) (enumerate 0 (params fta) ! j) = Inr (args ! j)"
    by simp_all
  have "\<forall>i<length (params fta). serializeArg (params fta ! i) i r = Inr (args ! i)"
  proof (intro allI impI)
    fix i assume i: "i < length (params fta)"
    with nth have "(\<lambda>(i, p). serializeArg p i r) (enumerate 0 (params fta) ! i) = Inr (args ! i)"
      by blast
    with i show "serializeArg (params fta ! i) i r = Inr (args ! i)"
      by (simp add: nth_enumerate_eq)
  qed
  with t len show ?thesis by blast
qed

lemma serializeModule_Inr:
  assumes "serializeModule h m = Inr cpp"
  shows "\<exists>hostFunctions.
           cpp = ModuleTemplate h hostFunctions (firstModuleName (moduleNames m))
                    (map methodOfProperty (properties (spec m)))
           \<and> length hostFunctions = length (properties (spec m))
           \<and> (\<forall>q<length (properties (spec m)).
                 serializePropertyIntoHostFunction h (properties (spec m) ! q)
                   (createAliasResolver (aliases m)) = Inr (hostFunctions ! q))"
proof -
  from assms obtain hostFunctions
    where m: "mapE (\<lambda>property. serializePropertyIntoHostFunction h property
                                 (createAliasResolver (aliases m)))
                (properties (spec m)) = Inr hostFunctions"
      and t: "cpp = ModuleTemplate h hostFunctions (firstModuleName (moduleNames m))
                       (map methodOfProperty (properties (spec m)))"
    by (auto simp add: serializeModule_def split: sum.splits)
  from mapE_Inr_nth [OF m] t show ?thesis by blast
qed

lemma generate_Inr:
  assumes "generate libraryName schema packageName assumeNonnull = Inr out"
  shows "\<exists>texts.
           out = [(libraryName @ ''JSI-generated.cpp'',
                   FileTemplate libraryName (join newline texts))]
           \<and> length texts = length (getModules schema)
           \<and> (\<forall>j<length (getModules schema).
                 serializeModule (fst (getModules schema ! j)) (snd (getModules schema ! j))
                   = Inr (texts ! j))"
proof -
  from assms obtain texts
    where m: "mapE (\<lambda>(hasteModuleName, nativeModule).
                      serializeModule hasteModuleName nativeModule) (getModules schema)
                = Inr texts"
      and t: "out = [(libraryName @ ''JSI-generated.cpp'',
                      FileTemplate libraryName (join newline texts))]"
    by (auto simp add: generate_def split: sum.splits)
  from mapE_Inr_nth [OF m] t show ?thesis
    by (auto simp add: case_prod_beta)
qed

text \<open>
  C3. The trampoline of a property is the signature followed by the body. When the
  return annotation is the void annotation the body is the native call as a statement
  of its own, then \<^verbatim>\<open>return jsi::Value::undefined();\<close>. Otherwise the body is the
  single statement that returns the call.
\<close>

theorem hostFunction_void_vs_value:
  assumes unwrap: "unwrapNullable (typeAnnotation property) = (fta, nl)"
    and ok: "serializePropertyIntoHostFunction h property r = Inr cpp"
  shows "\<exists>args.
           mapE (\<lambda>(i, p). serializeArg p i r) (enumerate 0 (params fta)) = Inr args
           \<and> cpp =
               ''static jsi::Value '' @ hostFunctionName h (name property)
                 @ ''(jsi::Runtime &rt, TurboModule &turboModule, const jsi::Value* args, size_t count) {''
                 @ (if ta_type (returnTypeAnnotation fta) = ''VoidTypeAnnotation''
                    then newline @ ''  '' @ methodCall h (name property) args
                           @ newline @ ''  return jsi::Value::undefined();''
                    else newline @ ''  return '' @ methodCall h (name property) args)
                 @ newline @ ''}''"
  using ok unwrap
  by (auto simp add: serializePropertyIntoHostFunction_def HostFunctionTemplate_def
        split: sum.splits)

theorem hostFunction_void_vs_value_witness:
  "serializePropertyIntoHostFunction ''M'' exampleLog (createAliasResolver Map.empty) =
     Inr (''static jsi::Value __hostFunction_MCxxSpecJSI_log(jsi::Runtime &rt, TurboModule &turboModule, const jsi::Value* args, size_t count) {''
            @ newline @ ''  static_cast<MCxxSpecJSI *>(&turboModule)->log(rt, args[0].asString(rt));''
            @ newline @ ''  return jsi::Value::undefined();''
            @ newline @ ''}'')
   \<and> serializePropertyIntoHostFunction ''M'' exampleAdd (createAliasResolver Map.empty) =
     Inr (''static jsi::Value __hostFunction_MCxxSpecJSI_add(jsi::Runtime &rt, TurboModule &turboModule, const jsi::Value* args, size_t count) {''
            @ newline @ ''  return static_cast<MCxxSpecJSI *>(&turboModule)->add(rt, args[0].asNumber(), args[1].isNull() || args[1].isUndefined() ? std::nullopt : std::make_optional(args[1].asNumber()));''
            @ newline @ ''}'')"
proof -
  let ?r = "createAliasResolver Map.empty"
  have argsLog:
    "mapE (\<lambda>(i, p). serializeArg p i ?r)
       (enumerate 0 [\<lparr>name = ''msg'',
                      typeAnnotation = NonNullable (plainType ''StringTypeAnnotation'')\<rparr>])
     = Inr [''args[0].asString(rt)'']"
    by (simp add: serializeArg_def plainType_def wrap_def string_of_nat.simps digit_def)
  have argsAdd:
    "mapE (\<lambda>(i, p). serializeArg p i ?r) (enumerate 0 [exampleParamA, exampleParamB])
     = Inr [''args[0].asNumber()'',
            ''args[1].isNull() || args[1].isUndefined() ? std::nullopt : std::make_optional(args[1].asNumber())'']"
    by (simp add: serializeArg_def exampleParamA_def exampleParamB_def plainType_def wrap_def
          string_of_nat.simps digit_def)
  obtain textLog where okLog: "serializePropertyIntoHostFunction ''M'' exampleLog ?r = Inr textLog"
    using argsLog by (simp add: serializePropertyIntoHostFunction_def exampleLog_def)
  obtain textAdd where okAdd: "serializePropertyIntoHostFunction ''M'' exampleAdd ?r = Inr textAdd"
    using argsAdd by (simp add: serializePropertyIntoHostFunction_def exampleAdd_def)
  from hostFunction_void_vs_value
         [where property = exampleLog and h = "''M''" and r = "?r" and cpp = textLog
            and nl = False
            and fta = "\<lparr>params = [\<lparr>name = ''msg'',
                          typeAnnotation = NonNullable (plainType ''StringTypeAnnotation'')\<rparr>],
                        returnTypeAnnotation = plainType ''VoidTypeAnnotation''\<rparr>"]
       okLog argsLog
  have "textLog =
     ''static jsi::Value __hostFunction_MCxxSpecJSI_log(jsi::Runtime &rt, TurboModule &turboModule, const jsi::Value* args, size_t count) {''
            @ newline @ ''  static_cast<MCxxSpecJSI *>(&turboModule)->log(rt, args[0].asString(rt));''
            @ newline @ ''  return jsi::Value::undefined();''
            @ newline @ ''}''"
    by (simp add: exampleLog_def plainType_def hostFunctionName_def methodCall_def)
  moreover
  from hostFunction_void_vs_value
         [where property = exampleAdd and h = "''M''" and r = "?r" and cpp = textAdd
            and nl = False
            and fta = "\<lparr>params = [exampleParamA, exampleParamB],
                        returnTypeAnnotation = plainType ''NumberTypeAnnotation''\<rparr>"]
       okAdd argsAdd
  have "textAdd =
     ''static jsi::Value __hostFunction_MCxxSpecJSI_add(jsi::Runtime &rt, TurboModule &turboModule, const jsi::Value* args, size_t count) {''
            @ newline @ ''  return static_cast<MCxxSpecJSI *>(&turboModule)->add(rt, args[0].asNumber(), args[1].isNull() || args[1].isUndefined() ? std::nullopt : std::make_optional(args[1].asNumber()));''
            @ newline @ ''}''"
    by (simp add: exampleAdd_def plainType_def hostFunctionName_def methodCall_def)
  ultimately show ?thesis using okLog okAdd by simp
qed

lemma join_case:
  "join sep xs = (case xs of [] \<Rightarrow> [] | x # rest \<Rightarrow> x
     @ concat (map ((@) sep) rest))"
  by (induction sep xs rule: join.induct) simp_all

lemma serializeArg_Inr_text:
  assumes "serializeArg arg index resolveAlias = Inr e"
  shows "\<exists>suffix \<in> {''.getNumber()'', ''.asString(rt)'', ''.asBool()''
     , ''.asNumber()'', ''.asObject(rt).asArray(rt)'', ''.asObject(rt).asFunction(rt)''
     , ''.asObject(rt)''}.
           e = (if snd (unwrapNullable (typeAnnotation arg)) then ''args['' @ string_of_nat index
              @ ''].isNull() || args['' @ string_of_nat index
              @ ''].isUndefined() ? std::nullopt : std::make_optional(args[''
              @ string_of_nat index @ '']'' @ suffix @ '')'' else ''args['' @ string_of_nat index
              @ '']'' @ suffix)"
proof -
  obtain ta nullable where u: "unwrapNullable (typeAnnotation arg) = (ta, nullable)"
    by (cases "unwrapNullable (typeAnnotation arg)")
  from assms u obtain real where "switchOnType (name arg) real (wrap index nullable) = Inr e"
    by (auto simp add: serializeArg_switch split: sum.splits if_splits)
  from switchOnType_Inr [OF this] obtain suffix
    where s: "suffix \<in> {''.getNumber()'', ''.asString(rt)'', ''.asBool()'', ''.asNumber()''
       , ''.asObject(rt).asArray(rt)'', ''.asObject(rt).asFunction(rt)'', ''.asObject(rt)''}"
      and e: "e = wrap index nullable suffix"
    by blast
  from e u have "e = (if snd (unwrapNullable (typeAnnotation arg)) then ''args[''
     @ string_of_nat index @ ''].isNull() || args['' @ string_of_nat index
     @ ''].isUndefined() ? std::nullopt : std::make_optional(args['' @ string_of_nat index @ '']''
     @ suffix @ '')'' else ''args['' @ string_of_nat index @ '']'' @ suffix)"
    by (simp add: wrap_def)
  with s show ?thesis by (rule_tac bexI)
qed

lemma HostFunctionTemplate_text:
  "HostFunctionTemplate h n isVoid args = ''static jsi::Value __hostFunction_'' @ h
    @ ''CxxSpecJSI_'' @ n
    @ ''(jsi::Runtime &rt, TurboModule &turboModule, const jsi::Value* args, size_t count) {''
    @ (if isVoid then newline @ ''  '' @ ''static_cast<'' @ h @ ''CxxSpecJSI *>(&turboModule)->''
     @ n @ ''(rt'' @ concat (map ((@) '', '') args) @ '');'' @ newline
     @ ''  return jsi::Value::undefined();'' else newline @ ''  return '' @ ''static_cast<'' @ h
     @ ''CxxSpecJSI *>(&turboModule)->'' @ n @ ''(rt'' @ concat (map ((@) '', '') args) @ '');'')
    @ newline @ ''}''"
  by (simp add: HostFunctionTemplate_def methodCall_def hostFunctionName_def join_case)

lemma serializeProperty_text:
  assumes unwrap: "unwrapNullable (typeAnnotation property) = (fta, nl)"
    and ok: "serializePropertyIntoHostFunction h property r = Inr cpp"
  shows "(\<exists>args. length args = length (params fta)
     \<and> (\<forall>i<length (params fta). serializeArg (params fta ! i) i r = Inr (args ! i)
      \<and> (\<exists>suffix \<in> {''.getNumber()'', ''.asString(rt)'', ''.asBool()''
        , ''.asNumber()'', ''.asObject(rt).asArray(rt)'', ''.asObject(rt).asFunction(rt)''
        , ''.asObject(rt)''}. args ! i
       = (if snd (unwrapNullable (typeAnnotation (params fta ! i))) then ''args[''
        @ string_of_nat i @ ''].isNull() || args['' @ string_of_nat i
        @ ''].isUndefined() ? std::nullopt : std::make_optional(args['' @ string_of_nat i @ '']''
        @ suffix @ '')'' else ''args['' @ string_of_nat i @ '']'' @ suffix))) \<and> cpp
     = ''static jsi::Value __hostFunction_'' @ h @ ''CxxSpecJSI_'' @ name property
     @ ''(jsi::Runtime &rt, TurboModule &turboModule, const jsi::Value* args, size_t count) {''
     @ (if (ta_type (returnTypeAnnotation fta) = ''VoidTypeAnnotation'') then newline @ ''  ''
      @ ''static_cast<'' @ h @ ''CxxSpecJSI *>(&turboModule)->'' @ name property @ ''(rt''
      @ concat (map ((@) '', '') args) @ '');'' @ newline @ ''  return jsi::Value::undefined();''
      else newline @ ''  return '' @ ''static_cast<'' @ h @ ''CxxSpecJSI *>(&turboModule)->''
      @ name property @ ''(rt'' @ concat (map ((@) '', '') args) @ '');'') @ newline @ ''}'')"
proof -
  from serializeProperty_Inr [OF unwrap ok] obtain args
    where t: "cpp = HostFunctionTemplate h (name property) (ta_type (returnTypeAnnotation fta)
       = ''VoidTypeAnnotation'') args"
      and len: "length args = length (params fta)"
      and nth: "\<forall>i<length (params fta). serializeArg (params fta ! i) i r
        = Inr (args ! i)"
    by blast
  have each: "\<forall>i<length (params fta). serializeArg (params fta ! i) i r = Inr (args ! i)
    \<and> (\<exists>suffix \<in> {''.getNumber()'', ''.asString(rt)'', ''.asBool()''
      , ''.asNumber()'', ''.asObject(rt).asArray(rt)'', ''.asObject(rt).asFunction(rt)''
      , ''.asObject(rt)''}. args ! i = (if snd (unwrapNullable (typeAnnotation (params fta ! i)))
      then ''args['' @ string_of_nat i @ ''].isNull() || args['' @ string_of_nat i
      @ ''].isUndefined() ? std::nullopt : std::make_optional(args['' @ string_of_nat i @ '']''
      @ suffix @ '')'' else ''args['' @ string_of_nat i @ '']'' @ suffix))"
  proof (intro allI impI conjI)
    fix i assume "i < length (params fta)"
    with nth show s: "serializeArg (params fta ! i) i r = Inr (args ! i)" by blast
    from serializeArg_Inr_text [OF s]
    show "\<exists>suffix \<in> {''.getNumber()'', ''.asString(rt)'', ''.asBool()''
       , ''.asNumber()'', ''.asObject(rt).asArray(rt)'', ''.asObject(rt).asFunction(rt)''
       , ''.asObject(rt)''}. args ! i = (if snd (unwrapNullable (typeAnnotation (params fta ! i)))
       then ''args['' @ string_of_nat i @ ''].isNull() || args['' @ string_of_nat i
       @ ''].isUndefined() ? std::nullopt : std::make_optional(args['' @ string_of_nat i @ '']''
       @ suffix @ '')'' else ''args['' @ string_of_nat i @ '']'' @ suffix)" .
  qed
  have body: "cpp = ''static jsi::Value __hostFunction_'' @ h @ ''CxxSpecJSI_'' @ name property
    @ ''(jsi::Runtime &rt, TurboModule &turboModule, const jsi::Value* args, size_t count) {''
    @ (if (ta_type (returnTypeAnnotation fta) = ''VoidTypeAnnotation'') then newline @ ''  ''
     @ ''static_cast<'' @ h @ ''CxxSpecJSI *>(&turboModule)->'' @ name property @ ''(rt''
     @ concat (map ((@) '', '') args) @ '');'' @ newline @ ''  return jsi::Value::undefined();''
     else newline @ ''  return '' @ ''static_cast<'' @ h @ ''CxxSpecJSI *>(&turboModule)->''
     @ name property @ ''(rt'' @ concat (map ((@) '', '') args) @ '');'') @ newline @ ''}''"
    unfolding t by (rule HostFunctionTemplate_text)
  show ?thesis
    by (rule exI [of _ args]) (intro conjI len each body)
qed



text \<open>
  C7. Of the external names a module declares, the driver passes the first to the
  module template, which prints it as the name the constructor registers. The names
  after the first change nothing: the module's text, and the result of \<open>generate\<close> on
  a schema holding the module, are those of the module declaring the first name alone,
  so more than one name raises no error of its own.
\<close>

theorem first_module_name_wins:
  "serializeModule h (m\<lparr>moduleNames := n # rest\<rparr>) = serializeModule h (m\<lparr>moduleNames := [n]\<rparr>)
   \<and> generate libraryName \<lparr>modules = pre @ (h, m\<lparr>moduleNames := n # rest\<rparr>) # post\<rparr>
         packageName assumeNonnull
       = generate libraryName \<lparr>modules = pre @ (h, m\<lparr>moduleNames := [n]\<rparr>) # post\<rparr>
           packageName assumeNonnull
   \<and> (\<forall>cpp. serializeModule h (m\<lparr>moduleNames := n # rest\<rparr>) = Inr cpp \<longrightarrow>
         (\<exists>hostFunctions.
            cpp = ModuleTemplate h hostFunctions n (map methodOfProperty (properties (spec m)))))
   \<and> (\<exists>front back.
         ModuleTemplate h hostFunctions n methods =
           front @ ''  : TurboModule('' @ dquote @ n @ dquote @ '', jsInvoker) {'' @ back)"
proof (intro conjI allI impI)
  show eq: "serializeModule h (m\<lparr>moduleNames := n # rest\<rparr>)
              = serializeModule h (m\<lparr>moduleNames := [n]\<rparr>)"
    by (simp add: serializeModule_def split: sum.splits)
  show "generate libraryName \<lparr>modules = pre @ (h, m\<lparr>moduleNames := n # rest\<rparr>) # post\<rparr>
          packageName assumeNonnull
        = generate libraryName \<lparr>modules = pre @ (h, m\<lparr>moduleNames := [n]\<rparr>) # post\<rparr>
            packageName assumeNonnull"
  proof -
    let ?f = "\<lambda>(hasteModuleName, nativeModule). serializeModule hasteModuleName nativeModule"
    have "mapE ?f ((h, m\<lparr>moduleNames := n # rest\<rparr>) # post)
            = mapE ?f ((h, m\<lparr>moduleNames := [n]\<rparr>) # post)"
      by (simp add: eq)
    then have "mapE ?f (pre @ (h, m\<lparr>moduleNames := n # rest\<rparr>) # post)
                 = mapE ?f (pre @ (h, m\<lparr>moduleNames := [n]\<rparr>) # post)"
      by (simp only: mapE_append)
    then show ?thesis
      by (simp add: generate_def getModules_def)
  qed
next
  fix cpp assume "serializeModule h (m\<lparr>moduleNames := n # rest\<rparr>) = Inr cpp"
  from serializeModule_Inr [OF this]
  show "\<exists>hostFunctions.
          cpp = ModuleTemplate h hostFunctions n (map methodOfProperty (properties (spec m)))"
    by auto
next
  have "ModuleTemplate h hostFunctions n methods =
          (join newline hostFunctions @ newline @ newline @ h @ ''CxxSpecJSI::'' @ h
             @ ''CxxSpecJSI(std::shared_ptr<CallInvoker> jsInvoker)'' @ newline)
          @ ''  : TurboModule('' @ dquote @ n @ dquote @ '', jsInvoker) {''
          @ (newline @ join newline (map (methodMapEntry h) methods) @ newline @ ''}'')"
    unfolding ModuleTemplate_def by simp
  then show "\<exists>front back.
         ModuleTemplate h hostFunctions n methods =
           front @ ''  : TurboModule('' @ dquote @ n @ dquote @ '', jsInvoker) {'' @ back"
    by blast
qed

theorem first_module_name_wins_witness:
  "serializeModule ''M'' (exampleModule\<lparr>moduleNames := [''M'', ''Other'']\<rparr>) =
     Inr (ModuleTemplate ''M''
            [HostFunctionTemplate ''M'' ''add'' False
               [''args[0].asNumber()'',
                ''args[1].isNull() || args[1].isUndefined() ? std::nullopt : std::make_optional(args[1].asNumber())'']]
            ''M'' [\<lparr>methodName = ''add'', paramCount = 2\<rparr>])"
proof -
  have "serializeModule ''M'' (exampleModule\<lparr>moduleNames := [''M'']\<rparr>) =
     Inr (ModuleTemplate ''M''
            [HostFunctionTemplate ''M'' ''add'' False
               [''args[0].asNumber()'',
                ''args[1].isNull() || args[1].isUndefined() ? std::nullopt : std::make_optional(args[1].asNumber())'']]
            ''M'' [\<lparr>methodName = ''add'', paramCount = 2\<rparr>])"
    by (simp add: serializeModule_def exampleModule_def methodOfProperty_def
          serializePropertyIntoHostFunction_def exampleAdd_def serializeArg_def
          exampleParamA_def exampleParamB_def plainType_def wrap_def string_of_nat.simps
          digit_def createAliasResolver_def numeral_2_eq_2)
  with first_module_name_wins
         [where h = "''M''" and m = exampleModule and n = "''M''" and rest = "[''Other'']"]
  show ?thesis by simp
qed

lemma FileTemplate_text:
  "FileTemplate lib (join newline texts) = ''/**'' @ newline
    @ '' * This code was generated by [react-native-codegen](https://www.npmjs.com/package/react-native-codegen).''
    @ newline @ '' *'' @ newline
    @ '' * Do not edit this file as changes may cause incorrect behavior and will be lost''
    @ newline @ '' * once the code is regenerated.'' @ newline @ '' *'' @ newline
    @ '' * @generated by codegen project: GenerateModuleH.js'' @ newline @ '' */'' @ newline
    @ newline @ ''#include '' @ dquote @ lib @ ''JSI.h'' @ dquote @ newline @ newline
    @ ''namespace facebook {'' @ newline @ ''namespace react {'' @ newline @ newline
    @ (case texts of [] \<Rightarrow> [] | x # rest \<Rightarrow> x
     @ concat (map ((@) newline) rest)) @ newline @ newline @ newline @ ''} // namespace react''
    @ newline @ ''} // namespace facebook'' @ newline"
  by (simp add: FileTemplate_def join_case)

lemma ModuleTemplate_text:
  "ModuleTemplate h hostFunctions (firstModuleName (moduleNames m))
     (map methodOfProperty (properties (spec m))) = (case hostFunctions of [] \<Rightarrow> []
        | x # rest \<Rightarrow> x @ concat (map ((@) newline) rest)) @ newline @ newline @ h
       @ ''CxxSpecJSI::'' @ h @ ''CxxSpecJSI(std::shared_ptr<CallInvoker> jsInvoker)'' @ newline
       @ ''  : TurboModule('' @ dquote @ (case moduleNames m of [] \<Rightarrow> ''undefined''
        | n # ns \<Rightarrow> n) @ dquote @ '', jsInvoker) {'' @ newline
       @ (case map (\<lambda>p. ''  methodMap_['' @ dquote @ name p @ dquote
         @ ''] = MethodMetadata {''
         @ string_of_nat (length (params (fst (unwrapNullable (typeAnnotation p)))))
         @ '', __hostFunction_'' @ h @ ''CxxSpecJSI_'' @ name p
         @ ''};'') (properties (spec m)) of [] \<Rightarrow> [] | x # rest \<Rightarrow> x
        @ concat (map ((@) newline) rest)) @ newline @ ''}''"
proof -
  have entry: "methodMapEntry h (methodOfProperty p) = ''  methodMap_['' @ dquote @ name p
    @ dquote @ ''] = MethodMetadata {''
    @ string_of_nat (length (params (fst (unwrapNullable (typeAnnotation p)))))
    @ '', __hostFunction_'' @ h @ ''CxxSpecJSI_'' @ name p @ ''};''" for p
    by (simp add: methodMapEntry_def methodOfProperty_def hostFunctionName_def case_prod_beta)
  have entries: "map (methodMapEntry h) (map methodOfProperty (properties (spec m))) =
          map (\<lambda>p. ''  methodMap_['' @ dquote @ name p @ dquote @ ''] = MethodMetadata {''
             @ string_of_nat (length (params (fst (unwrapNullable (typeAnnotation p)))))
             @ '', __hostFunction_'' @ h @ ''CxxSpecJSI_'' @ name p
             @ ''};'') (properties (spec m))"
    by (simp add: entry)
  have first: "firstModuleName (moduleNames m) =
          (case moduleNames m of [] \<Rightarrow> ''undefined'' | n # ns \<Rightarrow> n)"
    by (cases "moduleNames m") simp_all
  show ?thesis
    unfolding ModuleTemplate_def entries first join_case by simp
qed

text \<open>
  C5. \<open>generate\<close> reads its library name and its schema and nothing else: two runs on
  one library name and one schema give one result, whatever their other two arguments.
  When the run succeeds the result is the single file \<^verbatim>\<open><libraryName>JSI-generated.cpp\<close>.
  Its text, written out in full, is the header, the module texts in the order of the
  schema's modules with a line break between them, and the footer. The text of a
  module is its trampolines in the order of its properties, the constructor's head,
  and one registration entry per property in the same order. The text of a trampoline
  passes the serialized parameters in the order of the property's parameters.
\<close>

theorem generate_deterministic_in_schema_order:
  assumes run1: "generate libraryName schema packageName assumeNonnull = r"
    and run2: "generate libraryName schema packageName' assumeNonnull' = r'"
  shows "r = r'
    \<and> (\<forall>out. r = Inr out \<longrightarrow> (\<exists>texts. out = [(libraryName
          @ ''JSI-generated.cpp'', ''/**'' @ newline
          @ '' * This code was generated by [react-native-codegen](https://www.npmjs.com/package/react-native-codegen).''
          @ newline @ '' *'' @ newline
          @ '' * Do not edit this file as changes may cause incorrect behavior and will be lost''
          @ newline @ '' * once the code is regenerated.'' @ newline @ '' *'' @ newline
          @ '' * @generated by codegen project: GenerateModuleH.js'' @ newline @ '' */'' @ newline
          @ newline @ ''#include '' @ dquote @ libraryName @ ''JSI.h'' @ dquote @ newline
          @ newline @ ''namespace facebook {'' @ newline @ ''namespace react {'' @ newline
          @ newline @ (case texts of [] \<Rightarrow> [] | x # rest \<Rightarrow> x
           @ concat (map ((@) newline) rest)) @ newline @ newline @ newline
          @ ''} // namespace react'' @ newline @ ''} // namespace facebook'' @ newline)]
        \<and> length texts = length (getModules schema)
        \<and> (\<forall>j h m. j < length (getModules schema)
         \<longrightarrow> getModules schema ! j = (h, m)
         \<longrightarrow> (\<exists>hostFunctions. texts ! j
          = (case hostFunctions of [] \<Rightarrow> [] | x # rest \<Rightarrow> x
           @ concat (map ((@) newline) rest)) @ newline @ newline @ h @ ''CxxSpecJSI::'' @ h
          @ ''CxxSpecJSI(std::shared_ptr<CallInvoker> jsInvoker)'' @ newline
          @ ''  : TurboModule('' @ dquote @ (case moduleNames m of [] \<Rightarrow> ''undefined''
           | n # ns \<Rightarrow> n) @ dquote @ '', jsInvoker) {'' @ newline
          @ (case map (\<lambda>p. ''  methodMap_['' @ dquote @ name p @ dquote
            @ ''] = MethodMetadata {''
            @ string_of_nat (length (params (fst (unwrapNullable (typeAnnotation p)))))
            @ '', __hostFunction_'' @ h @ ''CxxSpecJSI_'' @ name p
            @ ''};'') (properties (spec m)) of [] \<Rightarrow> [] | x # rest \<Rightarrow> x
           @ concat (map ((@) newline) rest)) @ newline @ ''}'' \<and> length hostFunctions
          = length (properties (spec m))
          \<and> (\<forall>q fta nl. q < length (properties (spec m))
           \<longrightarrow> unwrapNullable (typeAnnotation (properties (spec m) ! q)) = (fta, nl)
           \<longrightarrow> (\<exists>args. length args = length (params fta)
            \<and> (\<forall>i<length (params fta). serializeArg (params fta ! i) i (createAliasResolver (aliases m))
             = Inr (args ! i) \<and> (\<exists>suffix \<in> {''.getNumber()'', ''.asString(rt)''
               , ''.asBool()'', ''.asNumber()'', ''.asObject(rt).asArray(rt)''
               , ''.asObject(rt).asFunction(rt)'', ''.asObject(rt)''}. args ! i
              = (if snd (unwrapNullable (typeAnnotation (params fta ! i))) then ''args[''
               @ string_of_nat i @ ''].isNull() || args['' @ string_of_nat i
               @ ''].isUndefined() ? std::nullopt : std::make_optional(args['' @ string_of_nat i
               @ '']'' @ suffix @ '')'' else ''args['' @ string_of_nat i @ '']'' @ suffix)))
            \<and> hostFunctions ! q = ''static jsi::Value __hostFunction_'' @ h @ ''CxxSpecJSI_''
            @ name (properties (spec m) ! q)
            @ ''(jsi::Runtime &rt, TurboModule &turboModule, const jsi::Value* args, size_t count) {''
            @ (if (ta_type (returnTypeAnnotation fta) = ''VoidTypeAnnotation'') then newline
             @ ''  '' @ ''static_cast<'' @ h @ ''CxxSpecJSI *>(&turboModule)->''
             @ name (properties (spec m) ! q) @ ''(rt'' @ concat (map ((@) '', '') args) @ '');''
             @ newline @ ''  return jsi::Value::undefined();'' else newline @ ''  return ''
             @ ''static_cast<'' @ h @ ''CxxSpecJSI *>(&turboModule)->''
             @ name (properties (spec m) ! q) @ ''(rt'' @ concat (map ((@) '', '') args) @ '');'')
            @ newline @ ''}''))))))"
proof (intro conjI allI impI)
  show "r = r'" using run1 run2 by (simp add: generate_def)
next
  fix out assume "r = Inr out"
  with run1 have "generate libraryName schema packageName assumeNonnull = Inr out" by simp
  from generate_Inr [OF this] obtain texts
    where single: "out = [(libraryName @ ''JSI-generated.cpp'',
                           FileTemplate libraryName (join newline texts))]"
      and len: "length texts = length (getModules schema)"
      and mods: "\<forall>j<length (getModules schema).
                   serializeModule (fst (getModules schema ! j)) (snd (getModules schema ! j))
                     = Inr (texts ! j)"
    by blast
  have whole: "out = [(libraryName @ ''JSI-generated.cpp'', ''/**'' @ newline
      @ '' * This code was generated by [react-native-codegen](https://www.npmjs.com/package/react-native-codegen).''
      @ newline @ '' *'' @ newline
      @ '' * Do not edit this file as changes may cause incorrect behavior and will be lost''
      @ newline @ '' * once the code is regenerated.'' @ newline @ '' *'' @ newline
      @ '' * @generated by codegen project: GenerateModuleH.js'' @ newline @ '' */'' @ newline
      @ newline @ ''#include '' @ dquote @ libraryName @ ''JSI.h'' @ dquote @ newline @ newline
      @ ''namespace facebook {'' @ newline @ ''namespace react {'' @ newline @ newline
      @ (case texts of [] \<Rightarrow> [] | x # rest \<Rightarrow> x
       @ concat (map ((@) newline) rest)) @ newline @ newline @ newline @ ''} // namespace react''
      @ newline @ ''} // namespace facebook'' @ newline)]"
    unfolding single FileTemplate_text ..
  have permod: "(\<forall>j h m. j < length (getModules schema)
     \<longrightarrow> getModules schema ! j = (h, m)
     \<longrightarrow> (\<exists>hostFunctions. texts ! j
      = (case hostFunctions of [] \<Rightarrow> [] | x # rest \<Rightarrow> x
       @ concat (map ((@) newline) rest)) @ newline @ newline @ h @ ''CxxSpecJSI::'' @ h
      @ ''CxxSpecJSI(std::shared_ptr<CallInvoker> jsInvoker)'' @ newline @ ''  : TurboModule(''
      @ dquote @ (case moduleNames m of [] \<Rightarrow> ''undefined'' | n # ns \<Rightarrow> n)
      @ dquote @ '', jsInvoker) {'' @ newline @ (case map (\<lambda>p. ''  methodMap_['' @ dquote
        @ name p @ dquote @ ''] = MethodMetadata {''
        @ string_of_nat (length (params (fst (unwrapNullable (typeAnnotation p)))))
        @ '', __hostFunction_'' @ h @ ''CxxSpecJSI_'' @ name p
        @ ''};'') (properties (spec m)) of [] \<Rightarrow> [] | x # rest \<Rightarrow> x
       @ concat (map ((@) newline) rest)) @ newline @ ''}'' \<and> length hostFunctions
      = length (properties (spec m)) \<and> (\<forall>q fta nl. q < length (properties (spec m))
       \<longrightarrow> unwrapNullable (typeAnnotation (properties (spec m) ! q)) = (fta, nl)
       \<longrightarrow> (\<exists>args. length args = length (params fta)
        \<and> (\<forall>i<length (params fta). serializeArg (params fta ! i) i (createAliasResolver (aliases m))
         = Inr (args ! i) \<and> (\<exists>suffix \<in> {''.getNumber()'', ''.asString(rt)''
           , ''.asBool()'', ''.asNumber()'', ''.asObject(rt).asArray(rt)''
           , ''.asObject(rt).asFunction(rt)'', ''.asObject(rt)''}. args ! i
          = (if snd (unwrapNullable (typeAnnotation (params fta ! i))) then ''args[''
           @ string_of_nat i @ ''].isNull() || args['' @ string_of_nat i
           @ ''].isUndefined() ? std::nullopt : std::make_optional(args['' @ string_of_nat i
           @ '']'' @ suffix @ '')'' else ''args['' @ string_of_nat i @ '']'' @ suffix)))
        \<and> hostFunctions ! q = ''static jsi::Value __hostFunction_'' @ h @ ''CxxSpecJSI_''
        @ name (properties (spec m) ! q)
        @ ''(jsi::Runtime &rt, TurboModule &turboModule, const jsi::Value* args, size_t count) {''
        @ (if (ta_type (returnTypeAnnotation fta) = ''VoidTypeAnnotation'') then newline @ ''  ''
         @ ''static_cast<'' @ h @ ''CxxSpecJSI *>(&turboModule)->''
         @ name (properties (spec m) ! q) @ ''(rt'' @ concat (map ((@) '', '') args) @ '');''
         @ newline @ ''  return jsi::Value::undefined();'' else newline @ ''  return ''
         @ ''static_cast<'' @ h @ ''CxxSpecJSI *>(&turboModule)->''
         @ name (properties (spec m) ! q) @ ''(rt'' @ concat (map ((@) '', '') args) @ '');'')
        @ newline @ ''}''))))"
  proof (intro allI impI)
    fix j h m
    assume j: "j < length (getModules schema)" and jm: "getModules schema ! j = (h, m)"
    with mods have "serializeModule h m = Inr (texts ! j)" by auto
    from serializeModule_Inr [OF this] obtain hostFunctions
      where t: "texts ! j =
                  ModuleTemplate h hostFunctions (firstModuleName (moduleNames m))
                    (map methodOfProperty (properties (spec m)))"
        and hl: "length hostFunctions = length (properties (spec m))"
        and props: "\<forall>q<length (properties (spec m)).
                      serializePropertyIntoHostFunction h (properties (spec m) ! q)
                        (createAliasResolver (aliases m)) = Inr (hostFunctions ! q)"
      by blast
    have modtext: "texts ! j = (case hostFunctions of [] \<Rightarrow> []
       | x # rest \<Rightarrow> x @ concat (map ((@) newline) rest)) @ newline @ newline @ h
      @ ''CxxSpecJSI::'' @ h @ ''CxxSpecJSI(std::shared_ptr<CallInvoker> jsInvoker)'' @ newline
      @ ''  : TurboModule('' @ dquote @ (case moduleNames m of [] \<Rightarrow> ''undefined''
       | n # ns \<Rightarrow> n) @ dquote @ '', jsInvoker) {'' @ newline
      @ (case map (\<lambda>p. ''  methodMap_['' @ dquote @ name p @ dquote
        @ ''] = MethodMetadata {''
        @ string_of_nat (length (params (fst (unwrapNullable (typeAnnotation p)))))
        @ '', __hostFunction_'' @ h @ ''CxxSpecJSI_'' @ name p
        @ ''};'') (properties (spec m)) of [] \<Rightarrow> [] | x # rest \<Rightarrow> x
       @ concat (map ((@) newline) rest)) @ newline @ ''}''"
      unfolding t by (rule ModuleTemplate_text)
    have perprop: "(\<forall>q fta nl. q < length (properties (spec m))
       \<longrightarrow> unwrapNullable (typeAnnotation (properties (spec m) ! q)) = (fta, nl)
       \<longrightarrow> (\<exists>args. length args = length (params fta)
        \<and> (\<forall>i<length (params fta). serializeArg (params fta ! i) i (createAliasResolver (aliases m))
         = Inr (args ! i) \<and> (\<exists>suffix \<in> {''.getNumber()'', ''.asString(rt)''
           , ''.asBool()'', ''.asNumber()'', ''.asObject(rt).asArray(rt)''
           , ''.asObject(rt).asFunction(rt)'', ''.asObject(rt)''}. args ! i
          = (if snd (unwrapNullable (typeAnnotation (params fta ! i))) then ''args[''
           @ string_of_nat i @ ''].isNull() || args['' @ string_of_nat i
           @ ''].isUndefined() ? std::nullopt : std::make_optional(args['' @ string_of_nat i
           @ '']'' @ suffix @ '')'' else ''args['' @ string_of_nat i @ '']'' @ suffix)))
        \<and> hostFunctions ! q = ''static jsi::Value __hostFunction_'' @ h @ ''CxxSpecJSI_''
        @ name (properties (spec m) ! q)
        @ ''(jsi::Runtime &rt, TurboModule &turboModule, const jsi::Value* args, size_t count) {''
        @ (if (ta_type (returnTypeAnnotation fta) = ''VoidTypeAnnotation'') then newline @ ''  ''
         @ ''static_cast<'' @ h @ ''CxxSpecJSI *>(&turboModule)->''
         @ name (properties (spec m) ! q) @ ''(rt'' @ concat (map ((@) '', '') args) @ '');''
         @ newline @ ''  return jsi::Value::undefined();'' else newline @ ''  return ''
         @ ''static_cast<'' @ h @ ''CxxSpecJSI *>(&turboModule)->''
         @ name (properties (spec m) ! q) @ ''(rt'' @ concat (map ((@) '', '') args) @ '');'')
        @ newline @ ''}''))"
    proof (intro allI impI)
      fix q fta nl
      assume q: "q < length (properties (spec m))"
        and u: "unwrapNullable (typeAnnotation (properties (spec m) ! q)) = (fta, nl)"
      from props q
      have "serializePropertyIntoHostFunction h (properties (spec m) ! q)
              (createAliasResolver (aliases m)) = Inr (hostFunctions ! q)"
        by blast
      from serializeProperty_text [OF u this]
      show "(\<exists>args. length args = length (params fta)
         \<and> (\<forall>i<length (params fta). serializeArg (params fta ! i) i (createAliasResolver (aliases m))
          = Inr (args ! i) \<and> (\<exists>suffix \<in> {''.getNumber()'', ''.asString(rt)''
            , ''.asBool()'', ''.asNumber()'', ''.asObject(rt).asArray(rt)''
            , ''.asObject(rt).asFunction(rt)'', ''.asObject(rt)''}. args ! i
           = (if snd (unwrapNullable (typeAnnotation (params fta ! i))) then ''args[''
            @ string_of_nat i @ ''].isNull() || args['' @ string_of_nat i
            @ ''].isUndefined() ? std::nullopt : std::make_optional(args['' @ string_of_nat i
            @ '']'' @ suffix @ '')'' else ''args['' @ string_of_nat i @ '']'' @ suffix)))
         \<and> hostFunctions ! q = ''static jsi::Value __hostFunction_'' @ h @ ''CxxSpecJSI_''
         @ name (properties (spec m) ! q)
         @ ''(jsi::Runtime &rt, TurboModule &turboModule, const jsi::Value* args, size_t count) {''
         @ (if (ta_type (returnTypeAnnotation fta) = ''VoidTypeAnnotation'') then newline @ ''  ''
          @ ''static_cast<'' @ h @ ''CxxSpecJSI *>(&turboModule)->''
          @ name (properties (spec m) ! q) @ ''(rt'' @ concat (map ((@) '', '') args) @ '');''
          @ newline @ ''  return jsi::Value::undefined();'' else newline @ ''  return ''
          @ ''static_cast<'' @ h @ ''CxxSpecJSI *>(&turboModule)->''
          @ name (properties (spec m) ! q) @ ''(rt'' @ concat (map ((@) '', '') args) @ '');'')
         @ newline @ ''}'')" .
    qed
    show "(\<exists>hostFunctions. texts ! j = (case hostFunctions of [] \<Rightarrow> []
        | x # rest \<Rightarrow> x @ concat (map ((@) newline) rest)) @ newline @ newline @ h
       @ ''CxxSpecJSI::'' @ h @ ''CxxSpecJSI(std::shared_ptr<CallInvoker> jsInvoker)'' @ newline
       @ ''  : TurboModule('' @ dquote @ (case moduleNames m of [] \<Rightarrow> ''undefined''
        | n # ns \<Rightarrow> n) @ dquote @ '', jsInvoker) {'' @ newline
       @ (case map (\<lambda>p. ''  methodMap_['' @ dquote @ name p @ dquote
         @ ''] = MethodMetadata {''
         @ string_of_nat (length (params (fst (unwrapNullable (typeAnnotation p)))))
         @ '', __hostFunction_'' @ h @ ''CxxSpecJSI_'' @ name p
         @ ''};'') (properties (spec m)) of [] \<Rightarrow> [] | x # rest \<Rightarrow> x
        @ concat (map ((@) newline) rest)) @ newline @ ''}'' \<and> length hostFunctions
       = length (properties (spec m)) \<and> (\<forall>q fta nl. q < length (properties (spec m))
        \<longrightarrow> unwrapNullable (typeAnnotation (properties (spec m) ! q)) = (fta, nl)
        \<longrightarrow> (\<exists>args. length args = length (params fta)
         \<and> (\<forall>i<length (params fta). serializeArg (params fta ! i) i (createAliasResolver (aliases m))
          = Inr (args ! i) \<and> (\<exists>suffix \<in> {''.getNumber()'', ''.asString(rt)''
            , ''.asBool()'', ''.asNumber()'', ''.asObject(rt).asArray(rt)''
            , ''.asObject(rt).asFunction(rt)'', ''.asObject(rt)''}. args ! i
           = (if snd (unwrapNullable (typeAnnotation (params fta ! i))) then ''args[''
            @ string_of_nat i @ ''].isNull() || args['' @ string_of_nat i
            @ ''].isUndefined() ? std::nullopt : std::make_optional(args['' @ string_of_nat i
            @ '']'' @ suffix @ '')'' else ''args['' @ string_of_nat i @ '']'' @ suffix)))
         \<and> hostFunctions ! q = ''static jsi::Value __hostFunction_'' @ h @ ''CxxSpecJSI_''
         @ name (properties (spec m) ! q)
         @ ''(jsi::Runtime &rt, TurboModule &turboModule, const jsi::Value* args, size_t count) {''
         @ (if (ta_type (returnTypeAnnotation fta) = ''VoidTypeAnnotation'') then newline @ ''  ''
          @ ''static_cast<'' @ h @ ''CxxSpecJSI *>(&turboModule)->''
          @ name (properties (spec m) ! q) @ ''(rt'' @ concat (map ((@) '', '') args) @ '');''
          @ newline @ ''  return jsi::Value::undefined();'' else newline @ ''  return ''
          @ ''static_cast<'' @ h @ ''CxxSpecJSI *>(&turboModule)->''
          @ name (properties (spec m) ! q) @ ''(rt'' @ concat (map ((@) '', '') args) @ '');'')
         @ newline @ ''}'')))"
      by (rule exI [of _ hostFunctions]) (intro conjI modtext hl perprop)
  qed
  show "(\<exists>texts. out = [(libraryName @ ''JSI-generated.cpp'', ''/**'' @ newline
       @ '' * This code was generated by [react-native-codegen](https://www.npmjs.com/package/react-native-codegen).''
       @ newline @ '' *'' @ newline
       @ '' * Do not edit this file as changes may cause incorrect behavior and will be lost''
       @ newline @ '' * once the code is regenerated.'' @ newline @ '' *'' @ newline
       @ '' * @generated by codegen project: GenerateModuleH.js'' @ newline @ '' */'' @ newline
       @ newline @ ''#include '' @ dquote @ libraryName @ ''JSI.h'' @ dquote @ newline @ newline
       @ ''namespace facebook {'' @ newline @ ''namespace react {'' @ newline @ newline
       @ (case texts of [] \<Rightarrow> [] | x # rest \<Rightarrow> x
        @ concat (map ((@) newline) rest)) @ newline @ newline @ newline
       @ ''} // namespace react'' @ newline @ ''} // namespace facebook'' @ newline)]
     \<and> length texts = length (getModules schema)
     \<and> (\<forall>j h m. j < length (getModules schema)
      \<longrightarrow> getModules schema ! j = (h, m)
      \<longrightarrow> (\<exists>hostFunctions. texts ! j
       = (case hostFunctions of [] \<Rightarrow> [] | x # rest \<Rightarrow> x
        @ concat (map ((@) newline) rest)) @ newline @ newline @ h @ ''CxxSpecJSI::'' @ h
       @ ''CxxSpecJSI(std::shared_ptr<CallInvoker> jsInvoker)'' @ newline @ ''  : TurboModule(''
       @ dquote @ (case moduleNames m of [] \<Rightarrow> ''undefined'' | n # ns \<Rightarrow> n)
       @ dquote @ '', jsInvoker) {'' @ newline @ (case map (\<lambda>p. ''  methodMap_['' @ dquote
         @ name p @ dquote @ ''] = MethodMetadata {''
         @ string_of_nat (length (params (fst (unwrapNullable (typeAnnotation p)))))
         @ '', __hostFunction_'' @ h @ ''CxxSpecJSI_'' @ name p
         @ ''};'') (properties (spec m)) of [] \<Rightarrow> [] | x # rest \<Rightarrow> x
        @ concat (map ((@) newline) rest)) @ newline @ ''}'' \<and> length hostFunctions
       = length (properties (spec m)) \<and> (\<forall>q fta nl. q < length (properties (spec m))
        \<longrightarrow> unwrapNullable (typeAnnotation (properties (spec m) ! q)) = (fta, nl)
        \<longrightarrow> (\<exists>args. length args = length (params fta)
         \<and> (\<forall>i<length (params fta). serializeArg (params fta ! i) i (createAliasResolver (aliases m))
          = Inr (args ! i) \<and> (\<exists>suffix \<in> {''.getNumber()'', ''.asString(rt)''
            , ''.asBool()'', ''.asNumber()'', ''.asObject(rt).asArray(rt)''
            , ''.asObject(rt).asFunction(rt)'', ''.asObject(rt)''}. args ! i
           = (if snd (unwrapNullable (typeAnnotation (params fta ! i))) then ''args[''
            @ string_of_nat i @ ''].isNull() || args['' @ string_of_nat i
            @ ''].isUndefined() ? std::nullopt : std::make_optional(args['' @ string_of_nat i
            @ '']'' @ suffix @ '')'' else ''args['' @ string_of_nat i @ '']'' @ suffix)))
         \<and> hostFunctions ! q = ''static jsi::Value __hostFunction_'' @ h @ ''CxxSpecJSI_''
         @ name (properties (spec m) ! q)
         @ ''(jsi::Runtime &rt, TurboModule &turboModule, const jsi::Value* args, size_t count) {''
         @ (if (ta_type (returnTypeAnnotation fta) = ''VoidTypeAnnotation'') then newline @ ''  ''
          @ ''static_cast<'' @ h @ ''CxxSpecJSI *>(&turboModule)->''
          @ name (properties (spec m) ! q) @ ''(rt'' @ concat (map ((@) '', '') args) @ '');''
          @ newline @ ''  return jsi::Value::undefined();'' else newline @ ''  return ''
          @ ''static_cast<'' @ h @ ''CxxSpecJSI *>(&turboModule)->''
          @ name (properties (spec m) ! q) @ ''(rt'' @ concat (map ((@) '', '') args) @ '');'')
         @ newline @ ''}'')))))"
    by (rule exI [of _ texts]) (intro conjI whole len permod)
qed


theorem generate_deterministic_in_schema_order_witness:
  "generate ''Lib'' exampleTwoModules None None =
     Inr [(''LibJSI-generated.cpp'', ''/**'' @ newline
         @ '' * This code was generated by [react-native-codegen](https://www.npmjs.com/package/react-native-codegen).''
         @ newline @ '' *'' @ newline
         @ '' * Do not edit this file as changes may cause incorrect behavior and will be lost''
         @ newline @ '' * once the code is regenerated.'' @ newline @ '' *'' @ newline
         @ '' * @generated by codegen project: GenerateModuleH.js'' @ newline @ '' */'' @ newline
         @ newline @ ''#include '' @ dquote @ ''LibJSI.h'' @ dquote @ newline @ newline
         @ ''namespace facebook {'' @ newline @ ''namespace react {'' @ newline @ newline
         @ ''static jsi::Value __hostFunction_MCxxSpecJSI_log(jsi::Runtime &rt, TurboModule &turboModule, const jsi::Value* args, size_t count) {''
         @ newline
         @ ''  static_cast<MCxxSpecJSI *>(&turboModule)->log(rt, args[0].asString(rt));''
         @ newline @ ''  return jsi::Value::undefined();'' @ newline @ ''}'' @ newline
         @ ''static jsi::Value __hostFunction_MCxxSpecJSI_add(jsi::Runtime &rt, TurboModule &turboModule, const jsi::Value* args, size_t count) {''
         @ newline
         @ ''  return static_cast<MCxxSpecJSI *>(&turboModule)->add(rt, args[0].asNumber(), args[1].isNull() || args[1].isUndefined() ? std::nullopt : std::make_optional(args[1].asNumber()));''
         @ newline @ ''}'' @ newline @ newline
         @ ''MCxxSpecJSI::MCxxSpecJSI(std::shared_ptr<CallInvoker> jsInvoker)'' @ newline
         @ ''  : TurboModule('' @ dquote @ ''M'' @ dquote @ '', jsInvoker) {'' @ newline
         @ ''  methodMap_['' @ dquote @ ''log'' @ dquote
         @ ''] = MethodMetadata {1, __hostFunction_MCxxSpecJSI_log};'' @ newline
         @ ''  methodMap_['' @ dquote @ ''add'' @ dquote
         @ ''] = MethodMetadata {2, __hostFunction_MCxxSpecJSI_add};'' @ newline @ ''}'' @ newline
         @ ''static jsi::Value __hostFunction_NCxxSpecJSI_log(jsi::Runtime &rt, TurboModule &turboModule, const jsi::Value* args, size_t count) {''
         @ newline
         @ ''  static_cast<NCxxSpecJSI *>(&turboModule)->log(rt, args[0].asString(rt));''
         @ newline @ ''  return jsi::Value::undefined();'' @ newline @ ''}'' @ newline @ newline
         @ ''NCxxSpecJSI::NCxxSpecJSI(std::shared_ptr<CallInvoker> jsInvoker)'' @ newline
         @ ''  : TurboModule('' @ dquote @ ''N'' @ dquote @ '', jsInvoker) {'' @ newline
         @ ''  methodMap_['' @ dquote @ ''log'' @ dquote
         @ ''] = MethodMetadata {1, __hostFunction_NCxxSpecJSI_log};'' @ newline @ ''}'' @ newline
         @ newline @ newline @ ''} // namespace react'' @ newline @ ''} // namespace facebook''
         @ newline)]
   \<and> generate ''Lib'' exampleTwoModules (Some ''pkg'') (Some True) =
     Inr [(''LibJSI-generated.cpp'', ''/**'' @ newline
         @ '' * This code was generated by [react-native-codegen](https://www.npmjs.com/package/react-native-codegen).''
         @ newline @ '' *'' @ newline
         @ '' * Do not edit this file as changes may cause incorrect behavior and will be lost''
         @ newline @ '' * once the code is regenerated.'' @ newline @ '' *'' @ newline
         @ '' * @generated by codegen project: GenerateModuleH.js'' @ newline @ '' */'' @ newline
         @ newline @ ''#include '' @ dquote @ ''LibJSI.h'' @ dquote @ newline @ newline
         @ ''namespace facebook {'' @ newline @ ''namespace react {'' @ newline @ newline
         @ ''static jsi::Value __hostFunction_MCxxSpecJSI_log(jsi::Runtime &rt, TurboModule &turboModule, const jsi::Value* args, size_t count) {''
         @ newline
         @ ''  static_cast<MCxxSpecJSI *>(&turboModule)->log(rt, args[0].asString(rt));''
         @ newline @ ''  return jsi::Value::undefined();'' @ newline @ ''}'' @ newline
         @ ''static jsi::Value __hostFunction_MCxxSpecJSI_add(jsi::Runtime &rt, TurboModule &turboModule, const jsi::Value* args, size_t count) {''
         @ newline
         @ ''  return static_cast<MCxxSpecJSI *>(&turboModule)->add(rt, args[0].asNumber(), args[1].isNull() || args[1].isUndefined() ? std::nullopt : std::make_optional(args[1].asNumber()));''
         @ newline @ ''}'' @ newline @ newline
         @ ''MCxxSpecJSI::MCxxSpecJSI(std::shared_ptr<CallInvoker> jsInvoker)'' @ newline
         @ ''  : TurboModule('' @ dquote @ ''M'' @ dquote @ '', jsInvoker) {'' @ newline
         @ ''  methodMap_['' @ dquote @ ''log'' @ dquote
         @ ''] = MethodMetadata {1, __hostFunction_MCxxSpecJSI_log};'' @ newline
         @ ''  methodMap_['' @ dquote @ ''add'' @ dquote
         @ ''] = MethodMetadata {2, __hostFunction_MCxxSpecJSI_add};'' @ newline @ ''}'' @ newline
         @ ''static jsi::Value __hostFunction_NCxxSpecJSI_log(jsi::Runtime &rt, TurboModule &turboModule, const jsi::Value* args, size_t count) {''
         @ newline
         @ ''  static_cast<NCxxSpecJSI *>(&turboModule)->log(rt, args[0].asString(rt));''
         @ newline @ ''  return jsi::Value::undefined();'' @ newline @ ''}'' @ newline @ newline
         @ ''NCxxSpecJSI::NCxxSpecJSI(std::shared_ptr<CallInvoker> jsInvoker)'' @ newline
         @ ''  : TurboModule('' @ dquote @ ''N'' @ dquote @ '', jsInvoker) {'' @ newline
         @ ''  methodMap_['' @ dquote @ ''log'' @ dquote
         @ ''] = MethodMetadata {1, __hostFunction_NCxxSpecJSI_log};'' @ newline @ ''}'' @ newline
         @ newline @ newline @ ''} // namespace react'' @ newline @ ''} // namespace facebook''
         @ newline)]"
proof -
  have ok: "generate ''Lib'' exampleTwoModules None None =
     Inr [(''LibJSI-generated.cpp'', ''/**'' @ newline
         @ '' * This code was generated by [react-native-codegen](https://www.npmjs.com/package/react-native-codegen).''
         @ newline @ '' *'' @ newline
         @ '' * Do not edit this file as changes may cause incorrect behavior and will be lost''
         @ newline @ '' * once the code is regenerated.'' @ newline @ '' *'' @ newline
         @ '' * @generated by codegen project: GenerateModuleH.js'' @ newline @ '' */'' @ newline
         @ newline @ ''#include '' @ dquote @ ''LibJSI.h'' @ dquote @ newline @ newline
         @ ''namespace facebook {'' @ newline @ ''namespace react {'' @ newline @ newline
         @ ''static jsi::Value __hostFunction_MCxxSpecJSI_log(jsi::Runtime &rt, TurboModule &turboModule, const jsi::Value* args, size_t count) {''
         @ newline
         @ ''  static_cast<MCxxSpecJSI *>(&turboModule)->log(rt, args[0].asString(rt));''
         @ newline @ ''  return jsi::Value::undefined();'' @ newline @ ''}'' @ newline
         @ ''static jsi::Value __hostFunction_MCxxSpecJSI_add(jsi::Runtime &rt, TurboModule &turboModule, const jsi::Value* args, size_t count) {''
         @ newline
         @ ''  return static_cast<MCxxSpecJSI *>(&turboModule)->add(rt, args[0].asNumber(), args[1].isNull() || args[1].isUndefined() ? std::nullopt : std::make_optional(args[1].asNumber()));''
         @ newline @ ''}'' @ newline @ newline
         @ ''MCxxSpecJSI::MCxxSpecJSI(std::shared_ptr<CallInvoker> jsInvoker)'' @ newline
         @ ''  : TurboModule('' @ dquote @ ''M'' @ dquote @ '', jsInvoker) {'' @ newline
         @ ''  methodMap_['' @ dquote @ ''log'' @ dquote
         @ ''] = MethodMetadata {1, __hostFunction_MCxxSpecJSI_log};'' @ newline
         @ ''  methodMap_['' @ dquote @ ''add'' @ dquote
         @ ''] = MethodMetadata {2, __hostFunction_MCxxSpecJSI_add};'' @ newline @ ''}'' @ newline
         @ ''static jsi::Value __hostFunction_NCxxSpecJSI_log(jsi::Runtime &rt, TurboModule &turboModule, const jsi::Value* args, size_t count) {''
         @ newline
         @ ''  static_cast<NCxxSpecJSI *>(&turboModule)->log(rt, args[0].asString(rt));''
         @ newline @ ''  return jsi::Value::undefined();'' @ newline @ ''}'' @ newline @ newline
         @ ''NCxxSpecJSI::NCxxSpecJSI(std::shared_ptr<CallInvoker> jsInvoker)'' @ newline
         @ ''  : TurboModule('' @ dquote @ ''N'' @ dquote @ '', jsInvoker) {'' @ newline
         @ ''  methodMap_['' @ dquote @ ''log'' @ dquote
         @ ''] = MethodMetadata {1, __hostFunction_NCxxSpecJSI_log};'' @ newline @ ''}'' @ newline
         @ newline @ newline @ ''} // namespace react'' @ newline @ ''} // namespace facebook''
         @ newline)]"
    by (simp add: generate_def getModules_def exampleTwoModules_def serializeModule_def
          methodOfProperty_def serializePropertyIntoHostFunction_def exampleAdd_def
          exampleLog_def serializeArg_def exampleParamA_def exampleParamB_def plainType_def
          wrap_def string_of_nat.simps digit_def createAliasResolver_def
          FileTemplate_def ModuleTemplate_def HostFunctionTemplate_def methodMapEntry_def
          methodCall_def hostFunctionName_def)
  from generate_deterministic_in_schema_order
         [where packageName' = "Some ''pkg''" and assumeNonnull' = "Some True",
          OF ok refl, THEN conjunct1]
  have "generate ''Lib'' exampleTwoModules (Some ''pkg'') (Some True) =
     Inr [(''LibJSI-generated.cpp'', ''/**'' @ newline
         @ '' * This code was generated by [react-native-codegen](https://www.npmjs.com/package/react-native-codegen).''
         @ newline @ '' *'' @ newline
         @ '' * Do not edit this file as changes may cause incorrect behavior and will be lost''
         @ newline @ '' * once the code is regenerated.'' @ newline @ '' *'' @ newline
         @ '' * @generated by codegen project: GenerateModuleH.js'' @ newline @ '' */'' @ newline
         @ newline @ ''#include '' @ dquote @ ''LibJSI.h'' @ dquote @ newline @ newline
         @ ''namespace facebook {'' @ newline @ ''namespace react {'' @ newline @ newline
         @ ''static jsi::Value __hostFunction_MCxxSpecJSI_log(jsi::Runtime &rt, TurboModule &turboModule, const jsi::Value* args, size_t count) {''
         @ newline
         @ ''  static_cast<MCxxSpecJSI *>(&turboModule)->log(rt, args[0].asString(rt));''
         @ newline @ ''  return jsi::Value::undefined();'' @ newline @ ''}'' @ newline
         @ ''static jsi::Value __hostFunction_MCxxSpecJSI_add(jsi::Runtime &rt, TurboModule &turboModule, const jsi::Value* args, size_t count) {''
         @ newline
         @ ''  return static_cast<MCxxSpecJSI *>(&turboModule)->add(rt, args[0].asNumber(), args[1].isNull() || args[1].isUndefined() ? std::nullopt : std::make_optional(args[1].asNumber()));''
         @ newline @ ''}'' @ newline @ newline
         @ ''MCxxSpecJSI::MCxxSpecJSI(std::shared_ptr<CallInvoker> jsInvoker)'' @ newline
         @ ''  : TurboModule('' @ dquote @ ''M'' @ dquote @ '', jsInvoker) {'' @ newline
         @ ''  methodMap_['' @ dquote @ ''log'' @ dquote
         @ ''] = MethodMetadata {1, __hostFunction_MCxxSpecJSI_log};'' @ newline
         @ ''  methodMap_['' @ dquote @ ''add'' @ dquote
         @ ''] = MethodMetadata {2, __hostFunction_MCxxSpecJSI_add};'' @ newline @ ''}'' @ newline
         @ ''static jsi::Value __hostFunction_NCxxSpecJSI_log(jsi::Runtime &rt, TurboModule &turboModule, const jsi::Value* args, size_t count) {''
         @ newline
         @ ''  static_cast<NCxxSpecJSI *>(&turboModule)->log(rt, args[0].asString(rt));''
         @ newline @ ''  return jsi::Value::undefined();'' @ newline @ ''}'' @ newline @ newline
         @ ''NCxxSpecJSI::NCxxSpecJSI(std::shared_ptr<CallInvoker> jsInvoker)'' @ newline
         @ ''  : TurboModule('' @ dquote @ ''N'' @ dquote @ '', jsInvoker) {'' @ newline
         @ ''  methodMap_['' @ dquote @ ''log'' @ dquote
         @ ''] = MethodMetadata {1, __hostFunction_NCxxSpecJSI_log};'' @ newline @ ''}'' @ newline
         @ newline @ newline @ ''} // namespace react'' @ newline @ ''} // namespace facebook''
         @ newline)]"
    by (rule sym)
  with ok show ?thesis by (intro conjI)
qed

text \<open>
  The text of the end-to-end example, in full: the trampoline reads \<^verbatim>\<open>a\<close> with the
  numeric accessor at index 0 and \<^verbatim>\<open>b\<close> with the conditional one at index 1, returns
  the call of the two-argument method, and the constructor registers \<^verbatim>\<open>add\<close> with
  arity 2.
\<close>

lemma generate_example_text:
  "generate ''Lib'' exampleSchema None None =
     Inr [(''LibJSI-generated.cpp'',
       ''/**'' @ newline
       @ '' * This code was generated by [react-native-codegen](https://www.npmjs.com/package/react-native-codegen).'' @ newline
       @ '' *'' @ newline
       @ '' * Do not edit this file as changes may cause incorrect behavior and will be lost'' @ newline
       @ '' * once the code is regenerated.'' @ newline
       @ '' *'' @ newline
       @ '' * @generated by codegen project: GenerateModuleH.js'' @ newline
       @ '' */'' @ newline
       @ newline
       @ ''#include '' @ dquote @ ''LibJSI.h'' @ dquote @ newline
       @ newline
       @ ''namespace facebook {'' @ newline
       @ ''namespace react {'' @ newline
       @ newline
       @ ''static jsi::Value __hostFunction_MCxxSpecJSI_add(jsi::Runtime &rt, TurboModule &turboModule, const jsi::Value* args, size_t count) {'' @ newline
       @ ''  return static_cast<MCxxSpecJSI *>(&turboModule)->add(rt, args[0].asNumber(), args[1].isNull() || args[1].isUndefined() ? std::nullopt : std::make_optional(args[1].asNumber()));'' @ newline
       @ ''}'' @ newline
       @ newline
       @ ''MCxxSpecJSI::MCxxSpecJSI(std::shared_ptr<CallInvoker> jsInvoker)'' @ newline
       @ ''  : TurboModule('' @ dquote @ ''M'' @ dquote @ '', jsInvoker) {'' @ newline
       @ ''  methodMap_['' @ dquote @ ''add'' @ dquote @ ''] = MethodMetadata {2, __hostFunction_MCxxSpecJSI_add};'' @ newline
       @ ''}'' @ newline
       @ newline
       @ newline
       @ ''} // namespace react'' @ newline
       @ ''} // namespace facebook'' @ newline)]"
  by (simp add: generate_def getModules_def exampleSchema_def serializeModule_def
        exampleModule_def methodOfProperty_def serializePropertyIntoHostFunction_def
        exampleAdd_def serializeArg_def exampleParamA_def exampleParamB_def plainType_def
        wrap_def string_of_nat.simps digit_def createAliasResolver_def
        FileTemplate_def ModuleTemplate_def HostFunctionTemplate_def methodMapEntry_def
        methodCall_def hostFunctionName_def)

section \<open>The runtime logging API\<close>

text \<open>
  C9, as the code has it. The six operations on a flow (start, addAnnotation,
  addPoint, endSuccess, endFailure, endCancel) pass the flow id's marker id and
  instance key and their other arguments to their native entry point when it is
  installed, and leave the world as it is when it is not. \<open>newFlowId\<close> asks the native
  next-instance-key entry point, with the marker id, only when the instance key is
  left out or is \<^verbatim>\<open>AUTO_INSTANCE_KEY\<close>: the instance key is then the native answer, or
  0 when the entry point is not installed. An instance key given by the caller is
  returned as it is and no native call is made. The object has no field: what an
  operation does is a function of its arguments, the installed entry points and the
  world.
\<close>

theorem userFlow_pass_through:
  "(nativeUserFlowStart g = None \<longrightarrow> start g fid opts w = w)
   \<and> (\<forall>native. nativeUserFlowStart g = Some native \<longrightarrow>
          start g fid opts w =
            native (markerId fid) (instanceKey fid) (triggerSource opts)
              (cancelOnBackground opts) w)
   \<and> (nativeUserFlowAddAnnotation g = None \<longrightarrow> addAnnotation g fid aName aValue w = w)
   \<and> (\<forall>native. nativeUserFlowAddAnnotation g = Some native \<longrightarrow>
          addAnnotation g fid aName aValue w =
            native (markerId fid) (instanceKey fid) aName aValue w)
   \<and> (nativeUserFlowAddPoint g = None \<longrightarrow> addPoint g fid pName pData w = w)
   \<and> (\<forall>native. nativeUserFlowAddPoint g = Some native \<longrightarrow>
          addPoint g fid pName pData w = native (markerId fid) (instanceKey fid) pName pData w)
   \<and> (nativeUserFlowEndSuccess g = None \<longrightarrow> endSuccess g fid w = w)
   \<and> (\<forall>native. nativeUserFlowEndSuccess g = Some native \<longrightarrow>
          endSuccess g fid w = native (markerId fid) (instanceKey fid) w)
   \<and> (nativeUserFlowEndFail g = None \<longrightarrow> endFailure g fid eName dInfo w = w)
   \<and> (\<forall>native. nativeUserFlowEndFail g = Some native \<longrightarrow>
          endFailure g fid eName dInfo w =
            native (markerId fid) (instanceKey fid) eName dInfo w)
   \<and> (nativeUserFlowEndCancel g = None \<longrightarrow> endCancel g fid reason w = w)
   \<and> (\<forall>native. nativeUserFlowEndCancel g = Some native \<longrightarrow>
          endCancel g fid reason w = native (markerId fid) (instanceKey fid) reason w)
   \<and> (\<forall>k. iKey = Some k \<longrightarrow> k \<noteq> AUTO_INSTANCE_KEY \<longrightarrow>
          newFlowId g mId iKey w = (\<lparr>markerId = mId, instanceKey = k\<rparr>, w))
   \<and> (iKey = None \<or> iKey = Some AUTO_INSTANCE_KEY \<longrightarrow>
        nativeUserFlowNextInstanceKey g = None \<longrightarrow>
          newFlowId g mId iKey w = (\<lparr>markerId = mId, instanceKey = 0\<rparr>, w))
   \<and> (\<forall>native. iKey = None \<or> iKey = Some AUTO_INSTANCE_KEY \<longrightarrow>
        nativeUserFlowNextInstanceKey g = Some native \<longrightarrow>
          newFlowId g mId iKey w =
            (\<lparr>markerId = mId, instanceKey = fst (native mId w)\<rparr>, snd (native mId w)))"
proof (intro conjI allI impI)
  show "start g fid opts w = w" if "nativeUserFlowStart g = None"
    using that by (simp add: start_def)
  show "start g fid opts w =
          native (markerId fid) (instanceKey fid) (triggerSource opts) (cancelOnBackground opts) w"
    if "nativeUserFlowStart g = Some native" for native
    using that by (simp add: start_def)
  show "addAnnotation g fid aName aValue w = w" if "nativeUserFlowAddAnnotation g = None"
    using that by (simp add: addAnnotation_def)
  show "addAnnotation g fid aName aValue w =
          native (markerId fid) (instanceKey fid) aName aValue w"
    if "nativeUserFlowAddAnnotation g = Some native" for native
    using that by (simp add: addAnnotation_def)
  show "addPoint g fid pName pData w = w" if "nativeUserFlowAddPoint g = None"
    using that by (simp add: addPoint_def)
  show "addPoint g fid pName pData w = native (markerId fid) (instanceKey fid) pName pData w"
    if "nativeUserFlowAddPoint g = Some native" for native
    using that by (simp add: addPoint_def)
  show "endSuccess g fid w = w" if "nativeUserFlowEndSuccess g = None"
    using that by (simp add: endSuccess_def)
  show "endSuccess g fid w = native (markerId fid) (instanceKey fid) w"
    if "nativeUserFlowEndSuccess g = Some native" for native
    using that by (simp add: endSuccess_def)
  show "endFailure g fid eName dInfo w = w" if "nativeUserFlowEndFail g = None"
    using that by (simp add: endFailure_def)
  show "endFailure g fid eName dInfo w = native (markerId fid) (instanceKey fid) eName dInfo w"
    if "nativeUserFlowEndFail g = Some native" for native
    using that by (simp add: endFailure_def)
  show "endCancel g fid reason w = w" if "nativeUserFlowEndCancel g = None"
    using that by (simp add: endCancel_def)
  show "endCancel g fid reason w = native (markerId fid) (instanceKey fid) reason w"
    if "nativeUserFlowEndCancel g = Some native" for native
    using that by (simp add: endCancel_def)
  show "newFlowId g mId iKey w = (\<lparr>markerId = mId, instanceKey = k\<rparr>, w)"
    if "iKey = Some k" "k \<noteq> AUTO_INSTANCE_KEY" for k
    using that by (simp add: newFlowId_def)
  show "newFlowId g mId iKey w = (\<lparr>markerId = mId, instanceKey = 0\<rparr>, w)"
    if "iKey = None \<or> iKey = Some AUTO_INSTANCE_KEY" "nativeUserFlowNextInstanceKey g = None"
    using that by (auto simp add: newFlowId_def)
  show "newFlowId g mId iKey w =
          (\<lparr>markerId = mId, instanceKey = fst (native mId w)\<rparr>, snd (native mId w))"
    if "iKey = None \<or> iKey = Some AUTO_INSTANCE_KEY"
      "nativeUserFlowNextInstanceKey g = Some native" for native
    using that by (auto simp add: newFlowId_def split: prod.splits)
qed

theorem userFlow_pass_through_witness:
  "start countingGlobal \<lparr>markerId = 7, instanceKey = 1\<rparr>
      \<lparr>triggerSource = ''user_click'', cancelOnBackground = True\<rparr> 0 = 1
   \<and> start bareGlobal \<lparr>markerId = 7, instanceKey = 1\<rparr>
      \<lparr>triggerSource = ''user_click'', cancelOnBackground = True\<rparr> 0 = 0
   \<and> endSuccess countingGlobal \<lparr>markerId = 7, instanceKey = 1\<rparr> 4 = 5
   \<and> endCancel bareGlobal \<lparr>markerId = 7, instanceKey = 1\<rparr> ''left'' 4 = 4
   \<and> newFlowId countingGlobal 7 None 0 = (\<lparr>markerId = 7, instanceKey = 107\<rparr>, 1)
   \<and> newFlowId countingGlobal 7 (Some (- 1)) 0 = (\<lparr>markerId = 7, instanceKey = 107\<rparr>, 1)
   \<and> newFlowId bareGlobal 7 None 0 = (\<lparr>markerId = 7, instanceKey = 0\<rparr>, 0)
   \<and> newFlowId bareGlobal 7 (Some 5) 0 = (\<lparr>markerId = 7, instanceKey = 5\<rparr>, 0)"
  using
    userFlow_pass_through
      [where g = countingGlobal and fid = "\<lparr>markerId = 7, instanceKey = 1\<rparr>"
         and opts = "\<lparr>triggerSource = ''user_click'', cancelOnBackground = True\<rparr>"
         and w = 0 and iKey = None and mId = 7]
    userFlow_pass_through
      [where g = countingGlobal and fid = "\<lparr>markerId = 7, instanceKey = 1\<rparr>"
         and w = 4 and iKey = "Some (- 1)" and mId = 7]
    userFlow_pass_through
      [where g = countingGlobal and w = 0 and iKey = "Some (- 1)" and mId = 7]
    userFlow_pass_through
      [where g = bareGlobal and fid = "\<lparr>markerId = 7, instanceKey = 1\<rparr>"
         and opts = "\<lparr>triggerSource = ''user_click'', cancelOnBackground = True\<rparr>"
         and w = 0 and iKey = None and mId = 7]
    userFlow_pass_through
      [where g = bareGlobal and fid = "\<lparr>markerId = 7, instanceKey = 1\<rparr>"
         and reason = "''left''" and w = 4 and iKey = "Some 5" and mId = 7]
    userFlow_pass_through
      [where g = bareGlobal and w = 0 and iKey = "Some 5" and mId = 7]
  by (simp add: countingGlobal_def bareGlobal_def countingNextInstanceKey_def
        AUTO_INSTANCE_KEY_def)

text \<open>
  C9, as the claim has it, fails for flow-id creation: with the next-instance-key
  entry point installed, \<open>newFlowId\<close> with the instance key 5 makes no native call (the
  counter of calls stays 0) and does not return what the entry point answers.
\<close>

theorem userFlow_newFlowId_counterexample:
  "nativeUserFlowNextInstanceKey countingGlobal = Some countingNextInstanceKey
   \<and> countingNextInstanceKey 7 0 = (107, 1)
   \<and> newFlowId countingGlobal 7 (Some 5) 0 = (\<lparr>markerId = 7, instanceKey = 5\<rparr>, 0)
   \<and> newFlowId countingGlobal 7 (Some 5) 0
       \<noteq> (\<lparr>markerId = 7, instanceKey = fst (countingNextInstanceKey 7 0)\<rparr>,
           snd (countingNextInstanceKey 7 0))"
  by (simp add: countingGlobal_def countingNextInstanceKey_def newFlowId_def
        AUTO_INSTANCE_KEY_def)

end
